theory Spec2Isabelle
  imports Main "HOL-Library.Word" "HOL-Library.List_Lexorder"
begin

unbundle bit_operations_syntax

section \<open>Python strings\<close>

text \<open>
  A Python \<open>str\<close> is a sequence of Unicode code points, so it is modelled as a list of
  natural numbers; \<open>bytes\<close> is a list of 8-bit characters. The literals of the source are
  ASCII and are written \<open>str ''...''\<close>.
\<close>

type_synonym codepoint = nat
type_synonym pystr = "codepoint list"
type_synonym bytes = "char list"

definition str :: "string \<Rightarrow> pystr" where
  "str s = map of_char s"

text \<open>
  \<open>str.isalnum\<close> on one character is \<open>isalpha or isdecimal or isdigit or isnumeric\<close>,
  read from the Unicode character database of the interpreter. The rows of the database
  for U+0000..U+00FF (ASCII and Latin-1) are written out: digits, the ASCII letters,
  U+00AA, U+00B2, U+00B3, U+00B5, U+00B9, U+00BA, U+00BC..U+00BE, and the Latin-1 letters
  U+00C0..U+00FF without the two operators U+00D7 and U+00F7. The rows above U+00FF are
  the parameter \<open>ucd\<close>: every theorem holds for each database.
\<close>

definition latin1_isalnum :: "codepoint \<Rightarrow> bool" where
  "latin1_isalnum c =
     (0x30 \<le> c \<and> c \<le> 0x39 \<or> 0x41 \<le> c \<and> c \<le> 0x5A \<or> 0x61 \<le> c \<and> c \<le> 0x7A \<or>
      c = 0xAA \<or> 0xB2 \<le> c \<and> c \<le> 0xB3 \<or> c = 0xB5 \<or> 0xB9 \<le> c \<and> c \<le> 0xBA \<or>
      0xBC \<le> c \<and> c \<le> 0xBE \<or> 0xC0 \<le> c \<and> c \<le> 0xD6 \<or> 0xD8 \<le> c \<and> c \<le> 0xF6 \<or>
      0xF8 \<le> c \<and> c \<le> 0xFF)"

definition isalnum :: "(codepoint \<Rightarrow> bool) \<Rightarrow> codepoint \<Rightarrow> bool" where
  "isalnum ucd c = (if c < 0x100 then latin1_isalnum c else ucd c)"

text \<open>\<open>s.strip(chars)\<close>: drop the characters of \<open>chars\<close> from both ends of \<open>s\<close>.\<close>

definition strip :: "pystr \<Rightarrow> pystr \<Rightarrow> pystr" where
  "strip chars s =
     rev (dropWhile (\<lambda>c. c \<in> set chars) (rev (dropWhile (\<lambda>c. c \<in> set chars) s)))"

section \<open>The identifier of a network name\<close>

text \<open>
  \<^verbatim>\<open>
  def _sanitize_identifier(value: str) -> str:
      return "".join(ch for ch in value if ch.isalnum() or ch in ("-", ".")).strip(".")
  \<close>
\<close>

definition sanitize_identifier :: "(codepoint \<Rightarrow> bool) \<Rightarrow> pystr \<Rightarrow> pystr" where
  "sanitize_identifier ucd value =
     strip (str ''.'')
       (filter (\<lambda>ch. isalnum ucd ch \<or> [ch] \<in> set [str ''-'', str ''.'']) value)"

text \<open>Line 40 of the source: \<^verbatim>\<open>sanitized_ssid = _sanitize_identifier(ssid) or "wifi"\<close>.\<close>

definition sanitized_ssid :: "(codepoint \<Rightarrow> bool) \<Rightarrow> pystr \<Rightarrow> pystr" where
  "sanitized_ssid ucd ssid =
     (let s = sanitize_identifier ucd ssid in if s = [] then str ''wifi'' else s)"

text \<open>The character class \<open>[A-Za-z0-9.-]\<close> of the specification.\<close>

definition ident_char :: "codepoint \<Rightarrow> bool" where
  "ident_char c =
     (0x41 \<le> c \<and> c \<le> 0x5A \<or> 0x61 \<le> c \<and> c \<le> 0x7A \<or> 0x30 \<le> c \<and> c \<le> 0x39 \<or>
      c = 0x2E \<or> c = 0x2D)"

definition is_ascii :: "pystr \<Rightarrow> bool" where
  "is_ascii s = list_all (\<lambda>c. c < 0x80) s"

section \<open>Exceptions and results\<close>

text \<open>
  A call that may raise returns \<open>exn + 'a\<close>: \<open>Inl\<close> carries the exception, \<open>Inr\<close> the
  value. \<open>and_then\<close> runs the next statement when the previous one returned.
\<close>

datatype exn =
    ValueError
  | UnicodeEncodeError
  | OverflowError
  | IndexError
  | OSError
  | ExpatError
  | InvalidFileException
  | NotModelled

definition and_then :: "exn + 'a \<Rightarrow> ('a \<Rightarrow> exn + 'b) \<Rightarrow> exn + 'b" where
  "and_then m f = (case m of Inl e \<Rightarrow> Inl e | Inr x \<Rightarrow> f x)"

section \<open>Property lists and their XML form\<close>

text \<open>
  The values \<open>plistlib\<close> writes for this program: strings, booleans, integers,
  dictionaries and lists. A dictionary keeps its items in insertion order.
\<close>

datatype pyobj =
    PyStr pystr
  | PyBool bool
  | PyInt int
  | PyDict "(pystr \<times> pyobj) list"
  | PyList "pyobj list"

text \<open>\<open>d[key]\<close> for a dictionary \<open>d\<close>, and \<open>None\<close> for anything else.\<close>

fun getitem :: "pyobj \<Rightarrow> pystr \<Rightarrow> pyobj option" where
  "getitem (PyDict d) key = map_of d key"
| "getitem obj key = None"

subsection \<open>\<open>str.encode('utf-8')\<close>\<close>

text \<open>
  The encoder is strict: a surrogate code point raises \<open>UnicodeEncodeError\<close>. A number
  from 0x110000 on is no code point; no Python string holds one, and the model refuses it
  in the same way.
\<close>

definition utf8_char :: "codepoint \<Rightarrow> bytes" where
  "utf8_char c =
     (if c < 0x80 then [char_of c]
      else if c < 0x800 then [char_of (0xC0 + c div 0x40), char_of (0x80 + c mod 0x40)]
      else if c < 0x10000 then
        [char_of (0xE0 + c div 0x1000), char_of (0x80 + c div 0x40 mod 0x40),
         char_of (0x80 + c mod 0x40)]
      else
        [char_of (0xF0 + c div 0x40000), char_of (0x80 + c div 0x1000 mod 0x40),
         char_of (0x80 + c div 0x40 mod 0x40), char_of (0x80 + c mod 0x40)])"

definition encodable :: "codepoint \<Rightarrow> bool" where
  "encodable c = (c < 0xD800 \<or> 0xDFFF < c \<and> c < 0x110000)"

fun encode :: "pystr \<Rightarrow> exn + bytes" where
  "encode [] = Inr []"
| "encode (c # cs) =
     (if encodable c then and_then (encode cs) (\<lambda>bs. Inr (utf8_char c @ bs))
      else Inl UnicodeEncodeError)"

subsection \<open>\<open>str.replace\<close> and \<open>plistlib._escape\<close>\<close>

text \<open>
  \<open>s.replace(old, new)\<close> replaces the occurrences of \<open>old\<close> from left to right, without
  overlap; an empty \<open>old\<close> matches before every character and at the end.
\<close>

function replace :: "pystr \<Rightarrow> pystr \<Rightarrow> pystr \<Rightarrow> pystr" where
  "replace old new s =
     (if old = [] then new @ concat (map (\<lambda>c. c # new) s)
      else if s = [] then []
      else if take (length old) s = old then new @ replace old new (drop (length old) s)
      else hd s # replace old new (tl s))"
  by pat_completeness auto
termination
  by (relation "measure (\<lambda>(old, new, s). length s)") auto

declare replace.simps [simp del]

text \<open>
  \<^verbatim>\<open>
  _controlCharPat = re.compile(
      r"[\x00\x01\x02\x03\x04\x05\x06\x07\x08\x0b\x0c\x0e\x0f"
      r"\x10\x11\x12\x13\x14\x15\x16\x17\x18\x19\x1a\x1b\x1c\x1d\x1e\x1f]")

  def _escape(text):
      m = _controlCharPat.search(text)
      if m is not None:
          raise ValueError("strings can't contain control characters; "
                           "use bytes instead")
      text = text.replace("\r\n", "\n")       # convert DOS line endings
      text = text.replace("\r", "\n")         # convert Mac line endings
      text = text.replace("&", "&amp;")       # escape '&'
      text = text.replace("<", "&lt;")        # escape '<'
      text = text.replace(">", "&gt;")        # escape '>'
      return text
  \<close>
\<close>

definition controlCharPat :: "codepoint \<Rightarrow> bool" where
  "controlCharPat c = (c < 0x20 \<and> c \<noteq> 0x09 \<and> c \<noteq> 0x0A \<and> c \<noteq> 0x0D)"

definition escape :: "pystr \<Rightarrow> exn + pystr" where
  "escape text =
     (if list_ex controlCharPat text then Inl ValueError
      else
        (let text = replace [0x0D, 0x0A] [0x0A] text;
             text = replace [0x0D] [0x0A] text;
             text = replace (str ''&'') (str ''&amp;'') text;
             text = replace (str ''<'') (str ''&lt;'') text;
             text = replace (str ''>'') (str ''&gt;'') text
         in Inr text))"

subsection \<open>The XML writer of \<open>plistlib\<close>\<close>

text \<open>
  The writer keeps an indentation level and appends to a file; here every method takes
  the level and returns the bytes it appends, and \<open>write_all\<close> appends them in order,
  stopping at the first exception.
\<close>

fun write_all :: "(exn + bytes) list \<Rightarrow> exn + bytes" where
  "write_all [] = Inr []"
| "write_all (w # ws) = and_then w (\<lambda>a. and_then (write_all ws) (\<lambda>b. Inr (a @ b)))"

text \<open>
  \<^verbatim>\<open>
  def writeln(self, line):
      if line:
          if isinstance(line, str):
              line = line.encode('utf-8')
          self.file.write(self._indent_level * self.indent)
          self.file.write(line)
      self.file.write(b'\n')
  \<close>
\<close>

definition writeln :: "nat \<Rightarrow> pystr \<Rightarrow> exn + bytes" where
  "writeln indent_level line =
     (if line \<noteq> [] then
        and_then (encode line) (\<lambda>b. Inr (replicate indent_level (CHR 0x09) @ b @ [CHR 0x0A]))
      else Inr [CHR 0x0A])"

text \<open>
  \<open>begin_element\<close> raises the level after its line and \<open>end_element\<close> lowers it before
  its line, so both lines stand at the level of the enclosing element.
\<close>

definition begin_element :: "nat \<Rightarrow> pystr \<Rightarrow> exn + bytes" where
  "begin_element indent_level element = writeln indent_level (str ''<'' @ element @ str ''>'')"

definition end_element :: "nat \<Rightarrow> pystr \<Rightarrow> exn + bytes" where
  "end_element indent_level element = writeln indent_level (str ''</'' @ element @ str ''>'')"

definition simple_element :: "nat \<Rightarrow> pystr \<Rightarrow> pystr option \<Rightarrow> exn + bytes" where
  "simple_element indent_level element value =
     (case value of
        Some v \<Rightarrow>
          and_then (escape v) (\<lambda>v'.
            writeln indent_level
              (str ''<'' @ element @ str ''>'' @ v' @ str ''</'' @ element @ str ''>''))
      | None \<Rightarrow> writeln indent_level (str ''<'' @ element @ str ''/>''))"

text \<open>\<open>"%d" % value\<close>: the decimal digits of an integer, with a minus sign when negative.\<close>

function decimal :: "nat \<Rightarrow> pystr" where
  "decimal n = (if n < 10 then [0x30 + n] else decimal (n div 10) @ [0x30 + n mod 10])"
  by pat_completeness auto
termination
  by (relation "measure id") auto

declare decimal.simps [simp del]

definition format_d :: "int \<Rightarrow> pystr" where
  "format_d i = (if i < 0 then str ''-'' @ decimal (nat (- i)) else decimal (nat i))"

text \<open>
  \<open>write_value\<close>, \<open>write_dict\<close> and \<open>write_array\<close>. The items of a dictionary are written
  sorted by key (\<open>sort_keys=True\<close> is the default of \<open>dumps\<close>); strings compare by code
  points.
\<close>

fun write_value :: "nat \<Rightarrow> pyobj \<Rightarrow> exn + bytes" where
  "write_value lvl (PyStr s) = simple_element lvl (str ''string'') (Some s)"
| "write_value lvl (PyBool b) =
     (if b then simple_element lvl (str ''true'') None
      else simple_element lvl (str ''false'') None)"
| "write_value lvl (PyInt i) =
     (if - (2 ^ 63) \<le> i \<and> i < 2 ^ 64
      then simple_element lvl (str ''integer'') (Some (format_d i))
      else Inl OverflowError)"
| "write_value lvl (PyDict d) =
     (if d \<noteq> [] then
        write_all
          [begin_element lvl (str ''dict''),
           write_all (map (\<lambda>(key, value).
               write_all [simple_element (Suc lvl) (str ''key'') (Some key),
                          write_value (Suc lvl) value])
             (sort_key fst d)),
           end_element lvl (str ''dict'')]
      else simple_element lvl (str ''dict'') None)"
| "write_value lvl (PyList array) =
     (if array \<noteq> [] then
        write_all
          [begin_element lvl (str ''array''),
           write_all (map (write_value (Suc lvl)) array),
           end_element lvl (str ''array'')]
      else simple_element lvl (str ''array'') None)"

definition PLISTHEADER :: bytes where
  \<open>PLISTHEADER =
     ''<?xml version="1.0" encoding="UTF-8"?>'' @ [CHR 0x0A] @
     ''<!DOCTYPE plist PUBLIC "-//Apple//DTD PLIST 1.0//EN" "http://www.apple.com/DTDs/PropertyList-1.0.dtd">'' @
     [CHR 0x0A]\<close>

text \<open>\<open>plistlib.dumps(value, fmt=FMT_XML)\<close>: the header, then \<open>_PlistWriter.write\<close>.\<close>

definition dumps :: "pyobj \<Rightarrow> exn + bytes" where
  \<open>dumps value =
     write_all
       [Inr PLISTHEADER,
        writeln 0 (str ''<plist version="1.0">''),
        write_value 0 value,
        writeln 0 (str ''</plist>'')]\<close>

section \<open>Random identifiers\<close>

text \<open>
  \<open>uuid.uuid4()\<close> is \<open>UUID(bytes=os.urandom(16), version=4)\<close>: the sixteen random bytes
  are read as a big-endian integer of 128 bits, whose variant and version bits the
  constructor then overwrites:
  \<^verbatim>\<open>
  int &= ~(0xc000 << 48)
  int |= 0x8000 << 48
  int &= ~(0xf000 << 64)
  int |= version << 76
  \<close>
  The draw of \<open>os.urandom\<close> is the argument \<open>r\<close>.
\<close>

definition uuid4 :: "128 word \<Rightarrow> 128 word" where
  "uuid4 r =
     (let i = r AND NOT (push_bit 48 0xc000);
          i = i OR push_bit 48 0x8000;
          i = i AND NOT (push_bit 64 0xf000);
          i = i OR push_bit 76 4
      in i)"

text \<open>
  \<^verbatim>\<open>
  def __str__(self):
      hex = '%032x' % self.int
      return '%s-%s-%s-%s-%s' % (
          hex[:8], hex[8:12], hex[12:16], hex[16:20], hex[20:])
  \<close>
\<close>

definition hexdigit :: "nat \<Rightarrow> codepoint" where
  "hexdigit d = (if d < 10 then 0x30 + d else 0x57 + d)"

fun hex_digits :: "nat \<Rightarrow> nat \<Rightarrow> pystr" where
  "hex_digits 0 n = []"
| "hex_digits (Suc k) n = hex_digits k (n div 16) @ [hexdigit (n mod 16)]"

definition uuid_str :: "128 word \<Rightarrow> pystr" where
  "uuid_str u =
     (let hex = hex_digits 32 (unat u)
      in take 8 hex @ str ''-'' @ take 4 (drop 8 hex) @ str ''-'' @ take 4 (drop 12 hex) @
         str ''-'' @ take 4 (drop 16 hex) @ str ''-'' @ drop 20 hex)"

section \<open>The profile\<close>

definition PROXY_PORT :: int where
  "PROXY_PORT = 8082"

text \<open>
  The dictionary \<open>payload\<close> of \<open>build_profile\<close> (lines 41 to 66 of the source), in the
  order of the literal.
\<close>

definition payload :: "pystr \<Rightarrow> pystr \<Rightarrow> pystr \<Rightarrow> pystr \<Rightarrow> pystr \<Rightarrow> pyobj" where
  "payload profile_uuid wifi_uuid sanitized ssid proxy_ip =
     PyDict
       [(str ''PayloadContent'',
         PyList
           [PyDict
              [(str ''AutoJoin'', PyBool True),
               (str ''EncryptionType'', PyStr (str ''Any'')),
               (str ''HIDDEN_NETWORK'', PyBool False),
               (str ''PayloadDescription'', PyStr (str ''Configures Wi-Fi proxy settings'')),
               (str ''PayloadDisplayName'', PyStr (ssid @ str '' Wi-Fi'')),
               (str ''PayloadIdentifier'', PyStr (str ''com.example.wifi.'' @ sanitized)),
               (str ''PayloadType'', PyStr (str ''com.apple.wifi.managed'')),
               (str ''PayloadUUID'', PyStr wifi_uuid),
               (str ''PayloadVersion'', PyInt 1),
               (str ''ProxyType'', PyStr (str ''Manual'')),
               (str ''ProxyServer'', PyStr proxy_ip),
               (str ''ProxyServerPort'', PyInt PROXY_PORT),
               (str ''SSID_STR'', PyStr ssid)]]),
        (str ''PayloadDescription'', PyStr (str ''Installs Wi-Fi proxy settings for Burp Suite'')),
        (str ''PayloadDisplayName'', PyStr (str ''Burp Suite Wi-Fi Proxy'')),
        (str ''PayloadIdentifier'', PyStr (str ''com.example.burp-proxy.'' @ sanitized)),
        (str ''PayloadOrganization'', PyStr (str ''Burp Proxy Setup'')),
        (str ''PayloadType'', PyStr (str ''Configuration'')),
        (str ''PayloadUUID'', PyStr profile_uuid),
        (str ''PayloadVersion'', PyInt 1)]"

text \<open>
  \<^verbatim>\<open>
  def build_profile(ssid: str, proxy_ip: str) -> bytes:
      profile_uuid = str(uuid.uuid4())
      wifi_uuid = str(uuid.uuid4())
      sanitized_ssid = _sanitize_identifier(ssid) or "wifi"
      payload = { ... }
      return plistlib.dumps(payload, fmt=plistlib.FMT_XML)
  \<close>
  \<open>r1\<close> and \<open>r2\<close> are the two draws of \<open>os.urandom(16)\<close>, in the order of the calls.
\<close>

definition profile_dict ::
  "(codepoint \<Rightarrow> bool) \<Rightarrow> 128 word \<Rightarrow> 128 word \<Rightarrow> pystr \<Rightarrow> pystr \<Rightarrow> pyobj" where
  "profile_dict ucd r1 r2 ssid proxy_ip =
     (let profile_uuid = uuid_str (uuid4 r1);
          wifi_uuid = uuid_str (uuid4 r2)
      in payload profile_uuid wifi_uuid (sanitized_ssid ucd ssid) ssid proxy_ip)"

definition build_profile ::
  "(codepoint \<Rightarrow> bool) \<Rightarrow> 128 word \<Rightarrow> 128 word \<Rightarrow> pystr \<Rightarrow> pystr \<Rightarrow> exn + bytes" where
  "build_profile ucd r1 r2 ssid proxy_ip = dumps (profile_dict ucd r1 r2 ssid proxy_ip)"

section \<open>Reading a property list back\<close>

text \<open>
  \<open>plistlib.loads\<close> hands the bytes to the expat XML parser and builds the value from
  the events expat reports. Neither is code of this program; they are modelled for the
  documents the writer above emits: UTF-8 text, an XML declaration and a document type
  declaration before the root element, tags without attributes other than those of the
  root element (which \<open>plistlib\<close> ignores), and character data with the five predefined
  entity references. Anything else is refused: what XML forbids with \<open>ExpatError\<close>,
  what XML allows and the model leaves out (comments, CDATA sections, character
  references, the elements \<open>real\<close>, \<open>data\<close> and \<open>date\<close>, binary property lists) with
  \<open>NotModelled\<close>.
\<close>

subsection \<open>UTF-8 decoding\<close>

definition continuation :: "char \<Rightarrow> bool" where
  "continuation b = (0x80 \<le> (of_char b :: nat) \<and> (of_char b :: nat) < 0xC0)"

fun decode :: "bytes \<Rightarrow> exn + pystr" where
  "decode [] = Inr []"
| "decode (b # bs) =
     (let n = of_char b :: nat in
      if n < 0x80 then and_then (decode bs) (\<lambda>cs. Inr (n # cs))
      else if 0xC2 \<le> n \<and> n < 0xE0 then
        (case bs of
           b1 # r \<Rightarrow>
             if continuation b1
             then and_then (decode r)
                    (\<lambda>cs. Inr (((n - 0xC0) * 0x40 + (of_char b1 - 0x80)) # cs))
             else Inl ExpatError
         | _ \<Rightarrow> Inl ExpatError)
      else if 0xE0 \<le> n \<and> n < 0xF0 then
        (case bs of
           b1 # b2 # r \<Rightarrow>
             (let c = (n - 0xE0) * 0x1000 + (of_char b1 - 0x80) * 0x40 + (of_char b2 - 0x80)
              in if continuation b1 \<and> continuation b2 \<and> 0x800 \<le> c \<and> encodable c
                 then and_then (decode r) (\<lambda>cs. Inr (c # cs))
                 else Inl ExpatError)
         | _ \<Rightarrow> Inl ExpatError)
      else if 0xF0 \<le> n \<and> n < 0xF5 then
        (case bs of
           b1 # b2 # b3 # r \<Rightarrow>
             (let c = (n - 0xF0) * 0x40000 + (of_char b1 - 0x80) * 0x1000 +
                      (of_char b2 - 0x80) * 0x40 + (of_char b3 - 0x80)
              in if continuation b1 \<and> continuation b2 \<and> continuation b3 \<and> 0x10000 \<le> c \<and>
                    c < 0x110000
                 then and_then (decode r) (\<lambda>cs. Inr (c # cs))
                 else Inl ExpatError)
         | _ \<Rightarrow> Inl ExpatError)
      else Inl ExpatError)"

subsection \<open>Markup and character data\<close>

text \<open>
  The text is cut at \<open><\<close> and \<open>>\<close> into markup and the character data between.
\<close>

datatype piece = Markup pystr | Text pystr

datatype scanning = InText pystr | InMarkup pystr

definition text_piece :: "pystr \<Rightarrow> piece list" where
  "text_piece t = (if t = [] then [] else [Text t])"

fun scan :: "scanning \<Rightarrow> pystr \<Rightarrow> exn + piece list" where
  "scan (InText t) [] = Inr (text_piece t)"
| "scan (InMarkup m) [] = Inl ExpatError"
| "scan (InText t) (c # cs) =
     (if c = 0x3C then and_then (scan (InMarkup []) cs) (\<lambda>ps. Inr (text_piece t @ ps))
      else scan (InText (t @ [c])) cs)"
| "scan (InMarkup m) (c # cs) =
     (if c = 0x3E then and_then (scan (InText []) cs) (\<lambda>ps. Inr (Markup m # ps))
      else if c = 0x3C then Inl ExpatError
      else scan (InMarkup (m @ [c])) cs)"

text \<open>The characters XML 1.0 allows in a document.\<close>

definition xml_char :: "codepoint \<Rightarrow> bool" where
  "xml_char c =
     (c = 0x09 \<or> c = 0x0A \<or> c = 0x0D \<or> 0x20 \<le> c \<and> c \<le> 0xD7FF \<or>
      0xE000 \<le> c \<and> c \<le> 0xFFFD \<or> 0x10000 \<le> c \<and> c \<le> 0x10FFFF)"

text \<open>
  Character data as expat reports it: entity references replaced, line ends
  \<open>\r\n\<close> and \<open>\r\<close> turned into \<open>\n\<close>.
\<close>

definition entity :: "pystr \<Rightarrow> exn + codepoint" where
  "entity name =
     (if name = str ''amp'' then Inr 0x26
      else if name = str ''lt'' then Inr 0x3C
      else if name = str ''gt'' then Inr 0x3E
      else if name = str ''quot'' then Inr 0x22
      else if name = str ''apos'' then Inr 0x27
      else if name \<noteq> [] \<and> hd name = 0x23 then Inl NotModelled
      else Inl ExpatError)"

datatype reading = Plain | AfterCR | Reference pystr

fun character_data :: "reading \<Rightarrow> pystr \<Rightarrow> exn + pystr" where
  "character_data (Reference r) [] = Inl ExpatError"
| "character_data m [] = Inr []"
| "character_data (Reference r) (c # cs) =
     (if c = 0x3B
      then and_then (entity r) (\<lambda>x. and_then (character_data Plain cs) (\<lambda>d. Inr (x # d)))
      else character_data (Reference (r @ [c])) cs)"
| "character_data m (c # cs) =
     (if c = 0x26 then character_data (Reference []) cs
      else if c = 0x0D then and_then (character_data AfterCR cs) (\<lambda>d. Inr (0x0A # d))
      else if c = 0x0A \<and> m = AfterCR then character_data Plain cs
      else if xml_char c then and_then (character_data Plain cs) (\<lambda>d. Inr (c # d))
      else Inl ExpatError)"

text \<open>
  The events of expat that \<open>plistlib\<close> listens to, and the declarations before the root
  element, which it does not hear of.
\<close>

datatype event =
    StartElement pystr
  | EndElement pystr
  | EmptyElement pystr
  | CharacterData pystr
  | Declaration

definition name_char :: "codepoint \<Rightarrow> bool" where
  "name_char c =
     (0x41 \<le> c \<and> c \<le> 0x5A \<or> 0x61 \<le> c \<and> c \<le> 0x7A \<or> 0x30 \<le> c \<and> c \<le> 0x39 \<or>
      c = 0x5F \<or> c = 0x2D \<or> c = 0x2E \<or> c = 0x3A)"

definition element_name :: "pystr \<Rightarrow> bool" where
  "element_name n =
     (n \<noteq> [] \<and> list_all name_char n \<and> \<not> (0x30 \<le> hd n \<and> hd n \<le> 0x39) \<and> hd n \<noteq> 0x2D \<and>
      hd n \<noteq> 0x2E)"

text \<open>
  A start tag may carry attributes after its name; \<open>plistlib\<close> does not read them, and
  the model does not check how they are written.
\<close>

definition markup :: "pystr \<Rightarrow> exn + event" where
  "markup m =
     (if m = [] then Inl ExpatError
      else if hd m = 0x3F then (if last m = 0x3F \<and> tl m \<noteq> [] then Inr Declaration else Inl ExpatError)
      else if hd m = 0x21 then
        (if take 8 m = str ''!DOCTYPE'' then Inr Declaration else Inl NotModelled)
      else if hd m = 0x2F then
        (if element_name (tl m) then Inr (EndElement (tl m)) else Inl ExpatError)
      else if last m = 0x2F then
        (if element_name (butlast m) then Inr (EmptyElement (butlast m)) else Inl ExpatError)
      else
        (if element_name (takeWhile (\<lambda>c. c \<noteq> 0x20) m)
         then Inr (StartElement (takeWhile (\<lambda>c. c \<noteq> 0x20) m))
         else Inl ExpatError))"

fun events :: "piece list \<Rightarrow> exn + event list" where
  "events [] = Inr []"
| "events (Markup m # ps) =
     and_then (markup m) (\<lambda>e. and_then (events ps) (\<lambda>es. Inr (e # es)))"
| "events (Text t # ps) =
     and_then (character_data Plain t) (\<lambda>d. and_then (events ps) (\<lambda>es. Inr (CharacterData d # es)))"

subsection \<open>\<open>plistlib._PlistParser\<close>\<close>

text \<open>
  The parser keeps a stack of the dictionaries and lists that are still open. In Python
  each of them is already stored in its parent (or is the root) when it is pushed, and
  fills up through the shared reference; here a stack entry remembers the place it was
  stored at, and the finished value is stored there when the entry is popped. Nothing
  else is stored in the parent in between, so the results agree.
\<close>

datatype place = AsRoot | AtKey pystr | AtEnd

record plist_parser =
  stack :: "(place \<times> pyobj) list"
  current_key :: "pystr option"
  root :: "pyobj option"
  data :: pystr
  open_elements :: "pystr list"
  seen_root :: bool

definition new_parser :: plist_parser where
  "new_parser =
     \<lparr>stack = [], current_key = None, root = None, data = [], open_elements = [],
      seen_root = False\<rparr>"

text \<open>\<open>d[key] = value\<close> on the items of a dictionary.\<close>

fun setitem :: "(pystr \<times> pyobj) list \<Rightarrow> pystr \<Rightarrow> pyobj \<Rightarrow> (pystr \<times> pyobj) list" where
  "setitem [] key value = [(key, value)]"
| "setitem ((k, v) # d) key value =
     (if k = key then (k, value) # d else (k, v) # setitem d key value)"

text \<open>
  \<^verbatim>\<open>
  def add_object(self, value):
      if self.current_key is not None:
          if not isinstance(self.stack[-1], type({})):
              raise ValueError("unexpected element at line %d" % ...)
          self.stack[-1][self.current_key] = value
          self.current_key = None
      elif not self.stack:
          # this is the root object
          self.root = value
      else:
          if not isinstance(self.stack[-1], type([])):
              raise ValueError("unexpected element at line %d" % ...)
          self.stack[-1].append(value)
  \<close>
  \<open>find_place\<close> is the part that chooses where the value goes, \<open>store\<close> the part that
  puts it there.
\<close>

definition find_place :: "plist_parser \<Rightarrow> exn + place \<times> plist_parser" where
  "find_place p =
     (case current_key p of
        Some key \<Rightarrow>
          (case stack p of
             [] \<Rightarrow> Inl IndexError
           | (_, PyDict d) # _ \<Rightarrow> Inr (AtKey key, p\<lparr>current_key := None\<rparr>)
           | _ \<Rightarrow> Inl ValueError)
      | None \<Rightarrow>
          (case stack p of
             [] \<Rightarrow> Inr (AsRoot, p)
           | (_, PyList a) # _ \<Rightarrow> Inr (AtEnd, p)
           | _ \<Rightarrow> Inl ValueError))"

definition store :: "place \<Rightarrow> pyobj \<Rightarrow> plist_parser \<Rightarrow> plist_parser" where
  "store pl value p =
     (case pl of
        AsRoot \<Rightarrow> p\<lparr>root := Some value\<rparr>
      | AtKey key \<Rightarrow>
          (case stack p of
             (q, PyDict d) # rest \<Rightarrow> p\<lparr>stack := (q, PyDict (setitem d key value)) # rest\<rparr>
           | _ \<Rightarrow> p)
      | AtEnd \<Rightarrow>
          (case stack p of
             (q, PyList a) # rest \<Rightarrow> p\<lparr>stack := (q, PyList (a @ [value])) # rest\<rparr>
           | _ \<Rightarrow> p))"

definition add_object :: "pyobj \<Rightarrow> plist_parser \<Rightarrow> exn + plist_parser" where
  "add_object value p = and_then (find_place p) (\<lambda>(pl, p'). Inr (store pl value p'))"

text \<open>
  \<open>begin_dict\<close> and \<open>begin_array\<close>: \<open>add_object\<close> of the empty container, then push it.
  \<open>end_dict\<close> and \<open>end_array\<close>: pop.
\<close>

definition begin_container :: "pyobj \<Rightarrow> plist_parser \<Rightarrow> exn + plist_parser" where
  "begin_container container p =
     and_then (find_place p) (\<lambda>(pl, p'). Inr (p'\<lparr>stack := (pl, container) # stack p'\<rparr>))"

definition pop :: "plist_parser \<Rightarrow> exn + plist_parser" where
  "pop p =
     (case stack p of
        [] \<Rightarrow> Inl IndexError
      | (pl, obj) # rest \<Rightarrow> Inr (store pl obj (p\<lparr>stack := rest\<rparr>)))"

text \<open>A key that is \<open>None\<close> or the empty string is false in a condition.\<close>

definition truthy :: "pystr option \<Rightarrow> bool" where
  "truthy k = (case k of None \<Rightarrow> False | Some s \<Rightarrow> s \<noteq> [])"

definition end_dict :: "plist_parser \<Rightarrow> exn + plist_parser" where
  "end_dict p = (if truthy (current_key p) then Inl ValueError else pop p)"

text \<open>
  \<^verbatim>\<open>
  def end_key(self):
      if self.current_key or not isinstance(self.stack[-1], type({})):
          raise ValueError("unexpected key at line %d" % ...)
      self.current_key = self.get_data()
  \<close>
\<close>

definition end_key :: "plist_parser \<Rightarrow> exn + plist_parser" where
  "end_key p =
     (if truthy (current_key p) then Inl ValueError
      else
        (case stack p of
           [] \<Rightarrow> Inl IndexError
         | (_, PyDict d) # _ \<Rightarrow> Inr (p\<lparr>current_key := Some (data p), data := []\<rparr>)
         | _ \<Rightarrow> Inl ValueError))"

text \<open>
  \<open>int(raw)\<close> for a string of decimal digits with an optional sign; the other spellings
  Python accepts are not modelled.
\<close>

definition digit :: "codepoint \<Rightarrow> bool" where
  "digit c = (0x30 \<le> c \<and> c \<le> 0x39)"

definition int_of_digits :: "pystr \<Rightarrow> int" where
  "int_of_digits ds = foldl (\<lambda>a c. 10 * a + int (c - 0x30)) 0 ds"

definition int_of_str :: "pystr \<Rightarrow> exn + int" where
  "int_of_str raw =
     (if raw \<noteq> [] \<and> list_all digit raw then Inr (int_of_digits raw)
      else if raw \<noteq> [] \<and> hd raw = 0x2D \<and> tl raw \<noteq> [] \<and> list_all digit (tl raw)
      then Inr (- int_of_digits (tl raw))
      else if raw \<noteq> [] \<and> hd raw = 0x2B \<and> tl raw \<noteq> [] \<and> list_all digit (tl raw)
      then Inr (int_of_digits (tl raw))
      else Inl NotModelled)"

definition end_integer :: "plist_parser \<Rightarrow> exn + plist_parser" where
  "end_integer p =
     and_then (int_of_str (data p)) (\<lambda>i. add_object (PyInt i) (p\<lparr>data := []\<rparr>))"

definition end_string :: "plist_parser \<Rightarrow> exn + plist_parser" where
  "end_string p = add_object (PyStr (data p)) (p\<lparr>data := []\<rparr>)"

text \<open>
  \<^verbatim>\<open>
  def handle_begin_element(self, element, attrs):
      self.data = []
      handler = getattr(self, "begin_" + element, None)
      if handler is not None:
          handler(attrs)

  def handle_end_element(self, element):
      handler = getattr(self, "end_" + element, None)
      if handler is not None:
          handler()

  def handle_data(self, data):
      self.data.append(data)
  \<close>
  \<open>get_data\<close> joins the chunks, so \<open>data\<close> is kept joined.
\<close>

definition handle_begin_element :: "pystr \<Rightarrow> plist_parser \<Rightarrow> exn + plist_parser" where
  "handle_begin_element element p =
     (if element = str ''dict'' then begin_container (PyDict []) (p\<lparr>data := []\<rparr>)
      else if element = str ''array'' then begin_container (PyList []) (p\<lparr>data := []\<rparr>)
      else Inr (p\<lparr>data := []\<rparr>))"

definition handle_end_element :: "pystr \<Rightarrow> plist_parser \<Rightarrow> exn + plist_parser" where
  "handle_end_element element p =
     (if element = str ''dict'' then end_dict p
      else if element = str ''key'' then end_key p
      else if element = str ''array'' then pop p
      else if element = str ''true'' then add_object (PyBool True) p
      else if element = str ''false'' then add_object (PyBool False) p
      else if element = str ''integer'' then end_integer p
      else if element = str ''string'' then end_string p
      else if element \<in> {str ''real'', str ''data'', str ''date''} then Inl NotModelled
      else Inr p)"

definition handle_data :: "pystr \<Rightarrow> plist_parser \<Rightarrow> plist_parser" where
  "handle_data d p = p\<lparr>data := data p @ d\<rparr>"

text \<open>
  One event: expat checks that the document stays well formed (one root element, tags
  properly nested, only white space and declarations outside it), then calls the handler.
\<close>

definition whitespace :: "pystr \<Rightarrow> bool" where
  "whitespace d = list_all (\<lambda>c. c = 0x20 \<or> c = 0x09 \<or> c = 0x0A) d"

definition open_element :: "pystr \<Rightarrow> plist_parser \<Rightarrow> exn + plist_parser" where
  "open_element n p =
     (if open_elements p = [] \<and> seen_root p then Inl ExpatError
      else handle_begin_element n (p\<lparr>open_elements := n # open_elements p, seen_root := True\<rparr>))"

definition close_element :: "pystr \<Rightarrow> plist_parser \<Rightarrow> exn + plist_parser" where
  "close_element n p =
     (case open_elements p of
        [] \<Rightarrow> Inl ExpatError
      | m # rest \<Rightarrow>
          if m = n then handle_end_element n (p\<lparr>open_elements := rest\<rparr>) else Inl ExpatError)"

fun feed :: "event \<Rightarrow> plist_parser \<Rightarrow> exn + plist_parser" where
  "feed (StartElement n) p = open_element n p"
| "feed (EndElement n) p = close_element n p"
| "feed (EmptyElement n) p = and_then (open_element n p) (close_element n)"
| "feed (CharacterData d) p =
     (if open_elements p = [] then (if whitespace d then Inr p else Inl ExpatError)
      else Inr (handle_data d p))"
| "feed Declaration p = (if open_elements p = [] \<and> \<not> seen_root p then Inr p else Inl ExpatError)"

fun feed_all :: "event list \<Rightarrow> plist_parser \<Rightarrow> exn + plist_parser" where
  "feed_all [] p = Inr p"
| "feed_all (e # es) p = and_then (feed e p) (feed_all es)"

text \<open>\<open>_PlistParser.parse\<close>: the root, once the document has ended well formed.\<close>

definition parse :: "pystr \<Rightarrow> exn + pyobj option" where
  "parse text =
     and_then (scan (InText []) text) (\<lambda>ps.
     and_then (events ps) (\<lambda>es.
     and_then (feed_all es new_parser) (\<lambda>p.
       if open_elements p = [] \<and> seen_root p then Inr (root p) else Inl ExpatError)))"

text \<open>
  \<open>plistlib.loads(value)\<close> with \<open>fmt=None\<close>: the value is read as XML when it starts with
  \<open><?xml\<close> or \<open><plist\<close>.
\<close>

definition is_fmt_xml :: "bytes \<Rightarrow> bool" where
  "is_fmt_xml header = (take 5 header = ''<?xml'' \<or> take 6 header = ''<plist'')"

definition loads :: "bytes \<Rightarrow> exn + pyobj option" where
  "loads value =
     (if is_fmt_xml (take 32 value) then and_then (decode value) parse else Inl NotModelled)"

section \<open>The profile server\<close>

text \<open>
  A response as \<open>do_GET\<close> assembles it: the status line, the headers the handler sets
  (\<open>send_response\<close> also adds \<open>Server\<close> and \<open>Date\<close>, which depend on the interpreter
  and the clock and are left out) and the body written to \<open>wfile\<close>.
\<close>

record response =
  status :: nat
  reason :: string
  headers :: "(string \<times> string) list"
  body :: bytes

text \<open>
  The file system as the handler sees it: a path is a list of components, and leads to
  a file with its bytes, to a directory, or to nothing.
\<close>

type_synonym path = "string list"

datatype node = File bytes | Directory

text \<open>\<open>Path.name\<close>: the last component, or the empty string.\<close>

definition name :: "path \<Rightarrow> string" where
  "name p = (if p = [] then [] else last p)"

definition PROFILE_FILENAME :: string where
  "PROFILE_FILENAME = ''burp-wifi-proxy.mobileconfig''"

text \<open>Line 155 of the source: \<^verbatim>\<open>profile_path = Path.cwd() / PROFILE_FILENAME\<close>.\<close>

definition profile_path_in :: "path \<Rightarrow> path" where
  "profile_path_in cwd = cwd @ [PROFILE_FILENAME]"

text \<open>The page of the route \<open>/\<close>, as the source spells it.\<close>

definition landing_page :: bytes where
  \<open>landing_page =
     [] @ [CHR 0x0A] @
     ''                <!doctype html>'' @ [CHR 0x0A] @
     ''                <html lang="en">'' @ [CHR 0x0A] @
     ''                  <head>'' @ [CHR 0x0A] @
     ''                    <meta charset="utf-8">'' @ [CHR 0x0A] @
     ''                    <title>Burp Suite Wi-Fi Proxy</title>'' @ [CHR 0x0A] @
     ''                    <style>'' @ [CHR 0x0A] @
     ''                      body { font-family: -apple-system, BlinkMacSystemFont, sans-serif; text-align: center; padding: 3rem; }'' @ [CHR 0x0A] @
     ''                      a.button { background: #0070f3; color: #fff; padding: 0.75rem 1.5rem; border-radius: 8px; text-decoration: none; }'' @ [CHR 0x0A] @
     ''                    </style>'' @ [CHR 0x0A] @
     ''                  </head>'' @ [CHR 0x0A] @
     ''                  <body>'' @ [CHR 0x0A] @
     ''                    <h1>Install Wi-Fi Proxy Profile</h1>'' @ [CHR 0x0A] @
     ''                    <p>Tap the button below on your iOS device to install the profile.</p>'' @ [CHR 0x0A] @
     ''                    <p><a class="button" href="/download">Download</a></p>'' @ [CHR 0x0A] @
     ''                  </body>'' @ [CHR 0x0A] @
     ''                </html>'' @ [CHR 0x0A] @
     ''                ''\<close>

text \<open>
  \<open>send_error(code, message)\<close> of \<open>http.server\<close> for a \<open>GET\<close> request and a code that
  carries a body: the reason phrase is the message, the connection is closed, and the
  body is the error page with the message and the explanation of the code, both passed
  through \<open>html.escape\<close>.
\<close>

definition html_escape :: "string \<Rightarrow> string" where
  "html_escape s =
     concat (map (\<lambda>c. if c = CHR ''&'' then ''&amp;'' else if c = CHR ''<'' then ''&lt;''
                       else if c = CHR ''>'' then ''&gt;'' else [c]) s)"

definition error_page :: "string \<Rightarrow> string \<Rightarrow> string \<Rightarrow> bytes" where
  \<open>error_page code message explain =
     ''<!DOCTYPE HTML>'' @ [CHR 0x0A] @
     ''<html lang="en">'' @ [CHR 0x0A] @
     ''    <head>'' @ [CHR 0x0A] @
     ''        <meta charset="utf-8">'' @ [CHR 0x0A] @
     ''        <title>Error response</title>'' @ [CHR 0x0A] @
     ''    </head>'' @ [CHR 0x0A] @
     ''    <body>'' @ [CHR 0x0A] @
     ''        <h1>Error response</h1>'' @ [CHR 0x0A] @
     ''        <p>Error code: '' @ code @ ''</p>'' @ [CHR 0x0A] @
     ''        <p>Message: '' @ html_escape message @ ''.</p>'' @ [CHR 0x0A] @
     ''        <p>Error code explanation: '' @ code @ '' - '' @ html_escape explain @ ''.</p>'' @ [CHR 0x0A] @
     ''    </body>'' @ [CHR 0x0A] @
     ''</html>'' @ [CHR 0x0A]\<close>

fun digits :: "nat \<Rightarrow> nat \<Rightarrow> string" where
  "digits 0 n = []"
| "digits (Suc k) n = digits k (n div 10) @ [char_of (48 + n mod 10)]"

text \<open>\<open>str(n)\<close> for a number below a million.\<close>

definition str_nat :: "nat \<Rightarrow> string" where
  "str_nat n =
     (if n < 10 then digits 1 n else if n < 100 then digits 2 n
      else if n < 1000 then digits 3 n else if n < 10000 then digits 4 n
      else if n < 100000 then digits 5 n else digits 6 n)"

definition send_error_404 :: "string \<Rightarrow> response" where
  "send_error_404 message =
     (let page = error_page ''404'' message ''Nothing matches the given URI'' in
      \<lparr>status = 404, reason = message,
       headers = [(''Connection'', ''close''), (''Content-Type'', ''text/html;charset=utf-8''),
                  (''Content-Length'', str_nat (length page))],
       body = page\<rparr>)"

text \<open>
  \<^verbatim>\<open>
  def do_GET(self):
      if self.path in {"/", ""}:
          self.send_response(200)
          self.send_header("Content-Type", "text/html; charset=utf-8")
          self.end_headers()
          self.wfile.write(""" ... """.encode("utf-8"))
          return

      if self.path == "/download":
          if not self.profile_path.exists():
              self.send_error(404, "Profile not found")
              return
          self.send_response(200)
          self.send_header("Content-Type", "application/x-apple-aspen-config")
          self.send_header(
              "Content-Disposition",
              f"attachment; filename={self.profile_path.name}",
          )
          self.end_headers()
          self.wfile.write(self.profile_path.read_bytes())
          return

      self.send_error(404, "Not found")
  \<close>
  The handler returns the response, or the exception that leaves it: \<open>read_bytes\<close> on a
  directory raises \<open>IsADirectoryError\<close>, an \<open>OSError\<close>, after the headers are out.
\<close>

definition do_GET :: "(path \<rightharpoonup> node) \<Rightarrow> path \<Rightarrow> string \<Rightarrow> exn + response" where
  "do_GET fs profile_path request_path =
     (if request_path \<in> {''/'', []} then
        Inr \<lparr>status = 200, reason = ''OK'',
             headers = [(''Content-Type'', ''text/html; charset=utf-8'')],
             body = landing_page\<rparr>
      else if request_path = ''/download'' then
        (case fs profile_path of
           None \<Rightarrow> Inr (send_error_404 ''Profile not found'')
         | Some (File content) \<Rightarrow>
             Inr \<lparr>status = 200, reason = ''OK'',
                  headers = [(''Content-Type'', ''application/x-apple-aspen-config''),
                             (''Content-Disposition'',
                              ''attachment; filename='' @ name profile_path)],
                  body = content\<rparr>
         | Some Directory \<Rightarrow> Inl OSError)
      else Inr (send_error_404 ''Not found''))"

section \<open>The local address\<close>

text \<open>
  \<^verbatim>\<open>
  def get_local_ip() -> str:
      ip_address = "127.0.0.1"
      try:
          with socket.socket(socket.AF_INET, socket.SOCK_DGRAM) as sock:
              sock.connect(("8.8.8.8", 80))
              ip_address = sock.getsockname()[0]
      except OSError:
          pass
      return ip_address
  \<close>
  The network is the outcome of the four socket calls: creating the socket, \<open>connect\<close>,
  \<open>getsockname\<close>, and the \<open>close\<close> that leaving the \<open>with\<close> block performs whether or not
  the block raised. The function threads \<open>ip_address\<close> and the pending exception.
\<close>

record sockets =
  socket_call :: "exn + unit"
  connect :: "exn + unit"
  getsockname :: "exn + pystr \<times> nat"
  close :: "exn + unit"

definition with_block :: "sockets \<Rightarrow> pystr \<Rightarrow> pystr \<times> exn option" where
  "with_block net ip_address =
     (case socket_call net of
        Inl e \<Rightarrow> (ip_address, Some e)
      | Inr _ \<Rightarrow>
          (let (ip_address, raised) =
                 (case connect net of
                    Inl e \<Rightarrow> (ip_address, Some e)
                  | Inr _ \<Rightarrow>
                      (case getsockname net of
                         Inl e \<Rightarrow> (ip_address, Some e)
                       | Inr (host, port) \<Rightarrow> (host, None)))
           in case close net of
                Inl e \<Rightarrow> (ip_address, Some e)
              | Inr _ \<Rightarrow> (ip_address, raised)))"

definition get_local_ip :: "sockets \<Rightarrow> exn + pystr" where
  "get_local_ip net =
     (let ip_address = str ''127.0.0.1'';
          (ip_address, raised) = with_block net ip_address
      in case raised of
           None \<Rightarrow> Inr ip_address
         | Some OSError \<Rightarrow> Inr ip_address
         | Some e \<Rightarrow> Inl e)"

section \<open>Notions used in the statements\<close>

text \<open>The UTF-8 encoding of a string all of whose characters can be encoded.\<close>

definition utf8 :: "pystr \<Rightarrow> bytes" where
  "utf8 s = concat (map utf8_char s)"

text \<open>What \<open>_escape\<close> returns when it returns.\<close>

definition escaped :: "pystr \<Rightarrow> pystr" where
  "escaped text =
     replace (str ''>'') (str ''&gt;'')
       (replace (str ''<'') (str ''&lt;'')
         (replace (str ''&'') (str ''&amp;'')
           (replace [0x0D] [0x0A] (replace [0x0D, 0x0A] [0x0A] text))))"

text \<open>
  A string the XML writer accepts: no control character other than tab, line feed and
  carriage return, and no surrogate code point.
\<close>

definition writable :: "pystr \<Rightarrow> bool" where
  "writable s = (\<not> list_ex controlCharPat s \<and> list_all encodable s)"

text \<open>
  The text that the writer emits for a property list, one element per line, indented by
  tabs, and the property lists for which it returns: every string and key is writable and
  every integer lies between \<open>-2^63\<close> and \<open>2^64 - 1\<close>.
\<close>

definition xml_line :: "nat \<Rightarrow> pystr \<Rightarrow> pystr" where
  "xml_line lvl text = replicate lvl 0x09 @ text @ [0x0A]"

definition xml_elem :: "string \<Rightarrow> pystr \<Rightarrow> pystr" where
  "xml_elem tag text = str ''<'' @ str tag @ str ''>'' @ text @ str ''</'' @ str tag @ str ''>''"

fun xml_value :: "nat \<Rightarrow> pyobj \<Rightarrow> pystr" where
  "xml_value lvl (PyStr s) = xml_line lvl (xml_elem ''string'' (escaped s))"
| "xml_value lvl (PyBool b) = xml_line lvl (if b then str ''<true/>'' else str ''<false/>'')"
| "xml_value lvl (PyInt i) = xml_line lvl (xml_elem ''integer'' (escaped (format_d i)))"
| "xml_value lvl (PyDict d) =
     (if d \<noteq> [] then
        xml_line lvl (str ''<dict>'') @
        concat (map (\<lambda>(key, value).
            xml_line (Suc lvl) (xml_elem ''key'' (escaped key)) @ xml_value (Suc lvl) value)
          (sort_key fst d)) @
        xml_line lvl (str ''</dict>'')
      else xml_line lvl (str ''<dict/>''))"
| "xml_value lvl (PyList array) =
     (if array \<noteq> [] then
        xml_line lvl (str ''<array>'') @
        concat (map (xml_value (Suc lvl)) array) @
        xml_line lvl (str ''</array>'')
      else xml_line lvl (str ''<array/>''))"

fun writable_obj :: "pyobj \<Rightarrow> bool" where
  "writable_obj (PyStr s) = writable s"
| "writable_obj (PyBool b) = True"
| "writable_obj (PyInt i) = (- (2 ^ 63) \<le> i \<and> i < 2 ^ 64)"
| "writable_obj (PyDict d) = list_all (\<lambda>(key, value). writable key \<and> writable_obj value) d"
| "writable_obj (PyList array) = list_all writable_obj array"

definition plist_xml :: "pyobj \<Rightarrow> pystr" where
  \<open>plist_xml value =
     xml_line 0 (str ''<?xml version="1.0" encoding="UTF-8"?>'') @
     xml_line 0 (str ''<!DOCTYPE plist PUBLIC "-//Apple//DTD PLIST 1.0//EN" "http://www.apple.com/DTDs/PropertyList-1.0.dtd">'') @
     xml_line 0 (str ''<plist version="1.0">'') @
     xml_value 0 value @
     xml_line 0 (str ''</plist>'')\<close>

text \<open>
  A literal of printable ASCII characters without \<open>&\<close>, \<open><\<close> and \<open>>\<close>: \<open>_escape\<close>
  returns it unchanged.
\<close>

definition plain :: "string \<Rightarrow> bool" where
  "plain s = list_all (\<lambda>c. 0x20 \<le> (of_char c :: nat) \<and> (of_char c :: nat) < 0x80 \<and>
     c \<noteq> CHR ''&'' \<and> c \<noteq> CHR ''<'' \<and> c \<noteq> CHR ''>'') s"

text \<open>
  The exception the writer raises for a property list, if any: the first one in the
  order of writing. A string with a control character raises \<open>ValueError\<close> in
  \<open>_escape\<close>, before the line is encoded.
\<close>

definition str_error :: "pystr \<Rightarrow> exn option" where
  "str_error s =
     (if list_ex controlCharPat s then Some ValueError
      else if list_all encodable s then None
      else Some UnicodeEncodeError)"

fun first_of :: "exn option list \<Rightarrow> exn option" where
  "first_of [] = None"
| "first_of (Some e # xs) = Some e"
| "first_of (None # xs) = first_of xs"

fun first_error :: "pyobj \<Rightarrow> exn option" where
  "first_error (PyStr s) = str_error s"
| "first_error (PyBool b) = None"
| "first_error (PyInt i) = (if - (2 ^ 63) \<le> i \<and> i < 2 ^ 64 then None else Some OverflowError)"
| "first_error (PyDict d) =
     first_of (map (\<lambda>(key, value). first_of [str_error key, first_error value]) (sort_key fst d))"
| "first_error (PyList array) = first_of (map first_error array)"

text \<open>The socket calls raise nothing but \<open>OSError\<close>, as the socket module documents.\<close>

definition os_error :: "exn + 'a \<Rightarrow> bool" where
  "os_error r = (case r of Inl e \<Rightarrow> e = OSError | Inr _ \<Rightarrow> True)"

definition raises_only_OSError :: "sockets \<Rightarrow> bool" where
  "raises_only_OSError net =
     (os_error (socket_call net) \<and> os_error (connect net) \<and> os_error (getsockname net) \<and>
      os_error (close net))"

section \<open>Properties of the identifier\<close>

lemma str_dot: "str ''.'' = [0x2E]"
  by (simp add: str_def)

lemma str_hyphen: "str ''-'' = [0x2D]"
  by (simp add: str_def)

lemma str_wifi: "str ''wifi'' = [0x77, 0x69, 0x66, 0x69]"
  by (simp add: str_def)

lemma strip_prefix: "\<exists>zs. dropWhile P xs = rev (dropWhile P (rev (dropWhile P xs))) @ zs"
proof -
  let ?ys = "dropWhile P xs"
  have "?ys = rev (takeWhile P (rev ?ys) @ dropWhile P (rev ?ys))"
    by (simp only: takeWhile_dropWhile_id rev_rev_ident)
  then have "?ys = rev (dropWhile P (rev ?ys)) @ rev (takeWhile P (rev ?ys))"
    by (simp only: rev_append)
  then show ?thesis ..
qed

lemma strip_set: "set (strip chars s) \<subseteq> set s"
proof -
  have "set (strip chars s) = set (dropWhile (\<lambda>c. c \<in> set chars) (rev (dropWhile (\<lambda>c. c \<in> set chars) s)))"
    by (simp add: strip_def)
  also have "\<dots> \<subseteq> set (rev (dropWhile (\<lambda>c. c \<in> set chars) s))"
    by (rule set_dropWhileD [THEN subsetI]) assumption
  also have "\<dots> \<subseteq> set s"
    using set_dropWhileD by fastforce
  finally show ?thesis .
qed

lemma strip_hd: "strip chars s \<noteq> [] \<Longrightarrow> hd (strip chars s) \<notin> set chars"
proof -
  assume ne: "strip chars s \<noteq> []"
  let ?P = "\<lambda>c. c \<in> set chars"
  obtain zs where zs: "dropWhile ?P s = strip chars s @ zs"
    using strip_prefix [of ?P s] by (auto simp: strip_def)
  with ne have "dropWhile ?P s \<noteq> []" and "hd (dropWhile ?P s) = hd (strip chars s)"
    by auto
  then show ?thesis
    using hd_dropWhile [of ?P s] by auto
qed

lemma strip_last: "strip chars s \<noteq> [] \<Longrightarrow> last (strip chars s) \<notin> set chars"
proof -
  assume ne: "strip chars s \<noteq> []"
  let ?P = "\<lambda>c. c \<in> set chars"
  let ?ys = "dropWhile ?P (rev (dropWhile ?P s))"
  from ne have "?ys \<noteq> []"
    by (simp add: strip_def)
  then have "\<not> ?P (hd ?ys)"
    by (rule hd_dropWhile)
  moreover have "last (strip chars s) = hd ?ys"
    using \<open>?ys \<noteq> []\<close> by (simp add: strip_def last_rev)
  ultimately show ?thesis by simp
qed

lemma dropWhile_hd_id: "xs \<noteq> [] \<Longrightarrow> \<not> P (hd xs) \<Longrightarrow> dropWhile P xs = xs"
  by (cases xs) simp_all

lemma strip_Nil: "strip chars [] = []"
  by (simp add: strip_def)

lemma strip_idem: "strip chars (strip chars s) = strip chars s"
proof (cases "strip chars s = []")
  case True
  show ?thesis
    by (simp only: True strip_Nil)
next
  case False
  let ?P = "\<lambda>c. c \<in> set chars"
  let ?t = "strip chars s"
  have h: "\<not> ?P (hd ?t)"
    using strip_hd [OF False] by simp
  have l: "\<not> ?P (last ?t)"
    using strip_last [OF False] by simp
  have a: "dropWhile ?P ?t = ?t"
    using False h by (rule dropWhile_hd_id)
  have "rev ?t \<noteq> []" and "\<not> ?P (hd (rev ?t))"
    using False l by (simp_all add: hd_rev)
  then have b: "dropWhile ?P (rev ?t) = rev ?t"
    by (rule dropWhile_hd_id)
  have "strip chars ?t = rev (dropWhile ?P (rev (dropWhile ?P ?t)))"
    by (simp only: strip_def)
  also have "\<dots> = ?t"
    by (simp only: a b rev_rev_ident)
  finally show ?thesis .
qed

lemma allowed_char_iff:
  "(isalnum ucd ch \<or> [ch] \<in> set [str ''-'', str ''.'']) \<longleftrightarrow>
   (isalnum ucd ch \<or> ch = 0x2D \<or> ch = 0x2E)"
  by (simp add: str_dot str_hyphen)

lemma sanitize_identifier_set:
  "c \<in> set (sanitize_identifier ucd s) \<Longrightarrow> c \<in> set s \<and> (isalnum ucd c \<or> c = 0x2D \<or> c = 0x2E)"
proof -
  assume "c \<in> set (sanitize_identifier ucd s)"
  then have "c \<in> set (filter (\<lambda>ch. isalnum ucd ch \<or> [ch] \<in> set [str ''-'', str ''.'']) s)"
    using strip_set unfolding sanitize_identifier_def by blast
  then show ?thesis
    by (simp add: str_dot str_hyphen)
qed

lemma ascii_isalnum: "c < 0x80 \<Longrightarrow> isalnum ucd c \<Longrightarrow> ident_char c"
  by (auto simp: isalnum_def latin1_isalnum_def ident_char_def)

lemma ident_char_wifi: "list_all ident_char (str ''wifi'')"
  by (simp add: str_wifi ident_char_def)

lemma isalnum_wifi: "list_all (\<lambda>c. isalnum ucd c \<or> c = 0x2D \<or> c = 0x2E) (str ''wifi'')"
  by (simp add: str_wifi isalnum_def latin1_isalnum_def)

text \<open>
  C1, as amended. For every input string, the identifier derived from it is non-empty,
  neither starts nor ends with a dot, and consists of hyphens, dots and characters that
  Python's \<open>str.isalnum\<close> accepts; these include letters and digits outside ASCII. When
  the input is ASCII, the identifier lies in \<open>[A-Za-z0-9.-]\<close>.
\<close>

theorem sanitized_ssid_charset:
  "sanitized_ssid ucd s \<noteq> [] \<and>
   hd (sanitized_ssid ucd s) \<noteq> 0x2E \<and>
   last (sanitized_ssid ucd s) \<noteq> 0x2E \<and>
   list_all (\<lambda>c. isalnum ucd c \<or> c = 0x2D \<or> c = 0x2E) (sanitized_ssid ucd s) \<and>
   (is_ascii s \<longrightarrow> list_all ident_char (sanitized_ssid ucd s))"
proof (cases "sanitize_identifier ucd s = []")
  case True
  then have "sanitized_ssid ucd s = str ''wifi''"
    by (simp add: sanitized_ssid_def)
  then show ?thesis
    using ident_char_wifi isalnum_wifi [of ucd] by (simp add: str_wifi)
next
  case False
  then have eq: "sanitized_ssid ucd s = sanitize_identifier ucd s"
    by (simp add: sanitized_ssid_def)
  have ne: "strip (str ''.'') (filter (\<lambda>ch. isalnum ucd ch \<or> [ch] \<in> set [str ''-'', str ''.'']) s) \<noteq> []"
    using False by (simp add: sanitize_identifier_def)
  have h: "hd (sanitize_identifier ucd s) \<noteq> 0x2E"
    using strip_hd [OF ne] by (simp add: sanitize_identifier_def str_dot)
  have l: "last (sanitize_identifier ucd s) \<noteq> 0x2E"
    using strip_last [OF ne] by (simp add: sanitize_identifier_def str_dot)
  have a: "list_all (\<lambda>c. isalnum ucd c \<or> c = 0x2D \<or> c = 0x2E) (sanitize_identifier ucd s)"
    using sanitize_identifier_set by (fastforce simp: list_all_iff)
  have b: "is_ascii s \<longrightarrow> list_all ident_char (sanitize_identifier ucd s)"
  proof
    assume asc: "is_ascii s"
    show "list_all ident_char (sanitize_identifier ucd s)"
      unfolding list_all_iff
    proof
      fix c
      assume c: "c \<in> set (sanitize_identifier ucd s)"
      then have "c \<in> set s" and k: "isalnum ucd c \<or> c = 0x2D \<or> c = 0x2E"
        using sanitize_identifier_set by blast+
      with asc have "c < 0x80"
        by (simp add: is_ascii_def list_all_iff)
      with k show "ident_char c"
        using ascii_isalnum [of c ucd] by (auto simp: ident_char_def)
    qed
  qed
  from False h l a b show ?thesis
    by (simp add: eq)
qed

text \<open>
  The amended C1 at the network name \<open>Cafe 5G.\<close> (ASCII): the identifier is \<open>Cafe5G\<close>.
\<close>

theorem sanitized_ssid_charset_witness:
  "\<forall>ucd. is_ascii (str ''Cafe 5G.'') \<and>
     sanitized_ssid ucd (str ''Cafe 5G.'') = str ''Cafe5G'' \<and>
     list_all ident_char (sanitized_ssid ucd (str ''Cafe 5G.''))"
proof
  fix ucd
  have a: "is_ascii (str ''Cafe 5G.'')"
    by (simp add: is_ascii_def str_def)
  have b: "sanitized_ssid ucd (str ''Cafe 5G.'') = str ''Cafe5G''"
    by (simp add: sanitized_ssid_def sanitize_identifier_def strip_def str_def isalnum_def
        latin1_isalnum_def)
  show "is_ascii (str ''Cafe 5G.'') \<and>
     sanitized_ssid ucd (str ''Cafe 5G.'') = str ''Cafe5G'' \<and>
     list_all ident_char (sanitized_ssid ucd (str ''Cafe 5G.''))"
    using a b sanitized_ssid_charset [of ucd "str ''Cafe 5G.''"] by simp
qed

text \<open>
  C1 as stated fails: the network name \<open>Caf\<close>U+00E9 keeps its last letter, which
  \<open>str.isalnum\<close> accepts and which is not in \<open>[A-Za-z0-9.-]\<close>.
\<close>

theorem sanitized_ssid_not_ascii_counterexample:
  "\<forall>ucd. sanitized_ssid ucd [0x43, 0x61, 0x66, 0xE9] = [0x43, 0x61, 0x66, 0xE9] \<and>
     \<not> list_all ident_char (sanitized_ssid ucd [0x43, 0x61, 0x66, 0xE9])"
  by (simp add: sanitized_ssid_def sanitize_identifier_def strip_def str_def isalnum_def
      latin1_isalnum_def ident_char_def)

text \<open>
  C10. Sanitising is idempotent: \<open>_sanitize_identifier\<close> applied to its own result
  returns that result.
\<close>

theorem sanitize_identifier_idempotent:
  "sanitize_identifier ucd (sanitize_identifier ucd s) = sanitize_identifier ucd s"
proof -
  let ?P = "\<lambda>ch. isalnum ucd ch \<or> [ch] \<in> set [str ''-'', str ''.'']"
  let ?t = "strip (str ''.'') (filter ?P s)"
  have "set ?t \<subseteq> set (filter ?P s)"
    by (rule strip_set)
  then have "filter ?P ?t = ?t"
    by (auto simp: filter_id_conv)
  then have "sanitize_identifier ucd ?t = strip (str ''.'') ?t"
    by (simp only: sanitize_identifier_def)
  also have "\<dots> = ?t"
    by (rule strip_idem)
  finally show ?thesis
    by (simp only: sanitize_identifier_def)
qed

section \<open>The writer on strings it accepts\<close>

lemma and_then_Inl: "and_then (Inl e) f = Inl e"
  by (simp add: and_then_def)

lemma and_then_Inr: "and_then (Inr x) f = f x"
  by (simp add: and_then_def)

lemma utf8_Nil: "utf8 [] = []"
  by (simp add: utf8_def)

lemma utf8_Cons: "utf8 (c # cs) = utf8_char c @ utf8 cs"
  by (simp add: utf8_def)

lemma utf8_append: "utf8 (a @ b) = utf8 a @ utf8 b"
  by (simp add: utf8_def)

lemma encode_ok: "list_all encodable s \<Longrightarrow> encode s = Inr (utf8 s)"
  by (induction s) (simp_all add: utf8_Nil utf8_Cons and_then_Inr)

lemma encode_fail: "\<not> list_all encodable s \<Longrightarrow> encode s = Inl UnicodeEncodeError"
proof (induction s)
  case Nil
  then show ?case by simp
next
  case (Cons c cs)
  show ?case
  proof (cases "encodable c")
    case True
    with Cons.prems have "\<not> list_all encodable cs" by simp
    then have "encode cs = Inl UnicodeEncodeError" by (rule Cons.IH)
    with True show ?thesis by (simp add: and_then_Inl)
  next
    case False
    then show ?thesis by simp
  qed
qed

lemma replace_Nil: "old \<noteq> [] \<Longrightarrow> replace old new [] = []"
  by (simp add: replace.simps [of old new "[]"])

lemma replace_single_Cons:
  "replace [a] new (c # s) = (if c = a then new else [c]) @ replace [a] new s"
  by (simp add: replace.simps [of "[a]" new "c # s"])

lemma replace_single: "replace [a] new s = concat (map (\<lambda>c. if c = a then new else [c]) s)"
  by (induction s) (simp_all add: replace_Nil replace_single_Cons)

lemma replace_absent: "hd old \<notin> set s \<Longrightarrow> old \<noteq> [] \<Longrightarrow> replace old new s = s"
proof (induction s)
  case Nil
  then show ?case by (simp add: replace_Nil)
next
  case (Cons c s)
  from Cons.prems have "take (length old) (c # s) \<noteq> old"
    by (cases old) auto
  with Cons show ?case
    by (simp add: replace.simps [of old new "c # s"])
qed

lemma replace_set: "set (replace old new s) \<subseteq> set s \<union> set new"
proof (induction old new s rule: replace.induct)
  case (1 old new s)
  show ?case
  proof (cases "old = []")
    case True
    then show ?thesis
      by (subst replace.simps) auto
  next
    case False
    show ?thesis
    proof (cases "s = []")
      case True
      with False show ?thesis by (simp add: replace_Nil)
    next
      case ne: False
      show ?thesis
      proof (cases "take (length old) s = old")
        case True
        have "set (drop (length old) s) \<subseteq> set s"
          by (rule set_drop_subset)
        with 1(1) [OF False ne True] True False ne show ?thesis
          by (subst replace.simps) auto
      next
        case nt: False
        from ne have "set s = insert (hd s) (set (tl s))"
          by (cases s) auto
        with 1(2) [OF False ne nt] False ne nt show ?thesis
          by (subst replace.simps) auto
      qed
    qed
  qed
qed

lemma replace_keeps: "c \<in> set s \<Longrightarrow> c \<notin> set old \<Longrightarrow> c \<in> set (replace old new s)"
proof (induction old new s rule: replace.induct)
  case (1 old new s)
  show ?case
  proof (cases "old = []")
    case True
    from 1(3) have "c \<in> set (concat (map (\<lambda>c. c # new) s))"
      by (induction s) auto
    with True show ?thesis
      by (subst replace.simps) simp
  next
    case False
    from 1(3) have ne: "s \<noteq> []" by auto
    show ?thesis
    proof (cases "take (length old) s = old")
      case True
      have "s = take (length old) s @ drop (length old) s" by simp
      then have "set s = set old \<union> set (drop (length old) s)"
        using True by (metis set_append)
      with 1(3,4) have "c \<in> set (drop (length old) s)" by blast
      from 1(1) [OF False ne True this 1(4)] False ne True show ?thesis
        by (subst replace.simps) simp
    next
      case nt: False
      show ?thesis
      proof (cases "c = hd s")
        case True
        with False ne nt show ?thesis
          by (subst replace.simps) simp
      next
        case nh: False
        with 1(3) ne have "c \<in> set (tl s)"
          by (cases s) auto
        from 1(2) [OF False ne nt this 1(4)] False ne nt show ?thesis
          by (subst replace.simps) simp
      qed
    qed
  qed
qed

section \<open>The document of a profile\<close>

lemma escape_eq:
  "escape v = (if list_ex controlCharPat v then Inl ValueError else Inr (escaped v))"
  by (simp add: escape_def escaped_def Let_def)

lemma str_append: "str (a @ b) = str a @ str b"
  by (simp add: str_def)

lemma str_Nil: "str [] = []"
  by (simp add: str_def)

lemma str_Cons: "str (c # cs) = of_char c # str cs"
  by (simp add: str_def)

lemma ascii_encodable: "c < 0x80 \<Longrightarrow> encodable c"
  by (simp add: encodable_def)

lemma str_encodable: "list_all (\<lambda>c. (of_char c :: nat) < 0x80) s \<Longrightarrow> list_all encodable (str s)"
  by (induction s) (simp_all add: str_Nil str_Cons ascii_encodable)

lemma escaped_encodable:
  assumes "list_all encodable v"
  shows "list_all encodable (escaped v)"
proof -
  have step: "list_all encodable (replace old new s)"
    if "list_all encodable s" "list_all encodable new" for old new s
    using that replace_set [of old new s] by (auto simp: list_all_iff)
  have n: "list_all encodable [0x0A]" "list_all encodable (str ''&amp;'')"
    "list_all encodable (str ''&lt;'')" "list_all encodable (str ''&gt;'')"
    by (simp_all add: str_def encodable_def)
  show ?thesis
    unfolding escaped_def using assms n by (intro step)
qed

lemma escaped_keeps:
  assumes "c \<in> set v" and "\<not> encodable c"
  shows "c \<in> set (escaped v)"
proof -
  from assms(2) have "c \<notin> set [0x0D, 0x0A]" "c \<notin> set [0x0D]" "c \<notin> set (str ''&'')"
    "c \<notin> set (str ''<'')" "c \<notin> set (str ''>'')"
    by (auto simp: str_def encodable_def)
  with assms(1) show ?thesis
    unfolding escaped_def by (intro replace_keeps)
qed

lemma escaped_encodable_iff: "list_all encodable (escaped v) \<longleftrightarrow> list_all encodable v"
  using escaped_encodable [of v] escaped_keeps [of _ v] by (auto simp: list_all_iff)

lemma utf8_tabs: "utf8 (replicate n 0x09) = replicate n (CHR 0x09)"
  by (induction n) (simp_all add: utf8_Nil utf8_Cons utf8_char_def char_of_eq_iff)

lemma utf8_newline: "utf8 [0x0A] = [CHR 0x0A]"
  by (simp add: utf8_Nil utf8_Cons utf8_char_def char_of_eq_iff)

lemma writeln_eq:
  "t \<noteq> [] \<Longrightarrow>
   writeln lvl t =
     (if list_all encodable t then Inr (utf8 (xml_line lvl t)) else Inl UnicodeEncodeError)"
  by (simp add: writeln_def encode_ok encode_fail and_then_Inl and_then_Inr xml_line_def utf8_append
      utf8_tabs utf8_newline)

lemma plain_Nil: "plain []"
  by (simp add: plain_def)

lemma plain_Cons:
  "plain (c # cs) \<longleftrightarrow>
     0x20 \<le> (of_char c :: nat) \<and> (of_char c :: nat) < 0x80 \<and> c \<noteq> CHR ''&'' \<and> c \<noteq> CHR ''<'' \<and>
     c \<noteq> CHR ''>'' \<and> plain cs"
  by (simp add: plain_def)

lemma plain_no_control: "plain s \<Longrightarrow> \<not> list_ex controlCharPat (str s)"
  by (induction s) (simp_all add: str_Nil str_Cons plain_Cons controlCharPat_def)

lemma plain_encodable: "plain s \<Longrightarrow> list_all encodable (str s)"
  by (induction s) (simp_all add: str_Nil str_Cons plain_Cons encodable_def)

lemma of_char_eq_iff: "(of_char c :: nat) = of_char d \<longleftrightarrow> c = d"
  by (metis char_of_char)

lemma plain_escaped: "plain s \<Longrightarrow> escaped (str s) = str s"
proof -
  assume p: "plain s"
  have a: "0x0D \<notin> set (str s)" "0x26 \<notin> set (str s)" "0x3C \<notin> set (str s)" "0x3E \<notin> set (str s)"
    using p by (induction s) (auto simp: str_Nil str_Cons plain_Cons of_char_eq_iff [symmetric])
  have s: "str ''&'' = [0x26]" "str ''<'' = [0x3C]" "str ''>'' = [0x3E]"
    by (simp_all add: str_def)
  show ?thesis
    using a by (simp add: escaped_def s replace_absent)
qed

lemma simple_element_Some:
  "plain tag \<Longrightarrow>
   simple_element lvl (str tag) (Some v) =
     (if list_ex controlCharPat v then Inl ValueError
      else if list_all encodable v then Inr (utf8 (xml_line lvl (xml_elem tag (escaped v))))
      else Inl UnicodeEncodeError)"
proof -
  assume p: "plain tag"
  have e: "list_all encodable (str ''<'')" "list_all encodable (str ''>'')"
    "list_all encodable (str ''</'')" "list_all encodable (str tag)"
    using p by (simp_all add: plain_encodable) (simp_all add: str_def encodable_def)
  have ne: "str ''<'' \<noteq> []"
    by (simp add: str_def)
  show ?thesis
    by (simp add: simple_element_def escape_eq and_then_Inl and_then_Inr writeln_eq ne
        xml_elem_def e escaped_encodable_iff)
qed

lemma simple_element_None:
  "plain tag \<Longrightarrow>
   simple_element lvl (str tag) None = Inr (utf8 (xml_line lvl (str (''<'' @ tag @ ''/>''))))"
proof -
  assume p: "plain tag"
  have e: "list_all encodable (str ''<'')" "list_all encodable (str ''/>'')"
    "list_all encodable (str tag)"
    using p by (simp_all add: plain_encodable) (simp_all add: str_def encodable_def)
  have ne: "str ''<'' \<noteq> []"
    by (simp add: str_def)
  show ?thesis
    by (simp add: simple_element_def writeln_eq ne e) (simp add: str_def)
qed

lemma begin_element_eq:
  "plain tag \<Longrightarrow> begin_element lvl (str tag) = Inr (utf8 (xml_line lvl (str (''<'' @ tag @ ''>''))))"
proof -
  assume p: "plain tag"
  have e: "list_all encodable (str ''<'')" "list_all encodable (str ''>'')"
    "list_all encodable (str tag)"
    using p by (simp_all add: plain_encodable) (simp_all add: str_def encodable_def)
  have ne: "str ''<'' \<noteq> []"
    by (simp add: str_def)
  show ?thesis
    by (simp add: begin_element_def writeln_eq ne e) (simp add: str_def)
qed

lemma end_element_eq:
  "plain tag \<Longrightarrow> end_element lvl (str tag) = Inr (utf8 (xml_line lvl (str (''</'' @ tag @ ''>''))))"
proof -
  assume p: "plain tag"
  have e: "list_all encodable (str ''</'')" "list_all encodable (str ''>'')"
    "list_all encodable (str tag)"
    using p by (simp_all add: plain_encodable) (simp_all add: str_def encodable_def)
  have ne: "str ''</'' \<noteq> []"
    by (simp add: str_def)
  show ?thesis
    by (simp add: end_element_def writeln_eq ne e) (simp add: str_def)
qed

lemma format_d_1: "format_d 1 = str ''1''"
  by (simp add: format_d_def decimal.simps [of "Suc 0"] str_def)

lemma format_d_8082: "format_d 8082 = str ''8082''"
  by (simp add: format_d_def decimal.simps [of 8082] decimal.simps [of 808]
      decimal.simps [of 80] decimal.simps [of 8] str_def)

lemma sort_inner:
  "sort_key fst
     [(str ''AutoJoin'', v1), (str ''EncryptionType'', v2), (str ''HIDDEN_NETWORK'', v3),
      (str ''PayloadDescription'', v4), (str ''PayloadDisplayName'', v5),
      (str ''PayloadIdentifier'', v6), (str ''PayloadType'', v7), (str ''PayloadUUID'', v8),
      (str ''PayloadVersion'', v9), (str ''ProxyType'', v10), (str ''ProxyServer'', v11),
      (str ''ProxyServerPort'', v12), (str ''SSID_STR'', v13)] =
     [(str ''AutoJoin'', v1), (str ''EncryptionType'', v2), (str ''HIDDEN_NETWORK'', v3),
      (str ''PayloadDescription'', v4), (str ''PayloadDisplayName'', v5),
      (str ''PayloadIdentifier'', v6), (str ''PayloadType'', v7), (str ''PayloadUUID'', v8),
      (str ''PayloadVersion'', v9), (str ''ProxyServer'', v11), (str ''ProxyServerPort'', v12),
      (str ''ProxyType'', v10), (str ''SSID_STR'', v13)]"
  by (simp add: str_def)

lemma sort_outer:
  "sort_key fst
     [(str ''PayloadContent'', v1), (str ''PayloadDescription'', v2),
      (str ''PayloadDisplayName'', v3), (str ''PayloadIdentifier'', v4),
      (str ''PayloadOrganization'', v5), (str ''PayloadType'', v6), (str ''PayloadUUID'', v7),
      (str ''PayloadVersion'', v8)] =
     [(str ''PayloadContent'', v1), (str ''PayloadDescription'', v2),
      (str ''PayloadDisplayName'', v3), (str ''PayloadIdentifier'', v4),
      (str ''PayloadOrganization'', v5), (str ''PayloadType'', v6), (str ''PayloadUUID'', v7),
      (str ''PayloadVersion'', v8)]"
  by (simp add: str_def)

lemma writeln_str:
  "s \<noteq> [] \<Longrightarrow> list_all (\<lambda>c. (of_char c :: nat) < 0x80) s \<Longrightarrow>
   writeln lvl (str s) = Inr (utf8 (xml_line lvl (str s)))"
  by (cases s) (simp_all add: writeln_eq str_encodable str_Cons ascii_encodable)

lemma utf8_str: "list_all (\<lambda>c. (of_char c :: nat) < 0x80) s \<Longrightarrow> utf8 (str s) = s"
  by (induction s) (simp_all add: str_Nil str_Cons utf8_Nil utf8_Cons utf8_char_def)

lemma utf8_line_str:
  "list_all (\<lambda>c. (of_char c :: nat) < 0x80) s \<Longrightarrow> utf8 (xml_line 0 (str s)) = s @ [CHR 0x0A]"
proof -
  assume "list_all (\<lambda>c. (of_char c :: nat) < 0x80) s"
  then have "utf8 (str s) = s"
    by (rule utf8_str)
  then show ?thesis
    unfolding xml_line_def utf8_append utf8_newline by (simp add: utf8_Nil)
qed

lemma PLISTHEADER_utf8:
  \<open>PLISTHEADER =
     utf8 (xml_line 0 (str ''<?xml version="1.0" encoding="UTF-8"?>'') @
           xml_line 0 (str ''<!DOCTYPE plist PUBLIC "-//Apple//DTD PLIST 1.0//EN" "http://www.apple.com/DTDs/PropertyList-1.0.dtd">''))\<close>
  unfolding PLISTHEADER_def utf8_append by (simp add: utf8_line_str)

lemma writable_append: "writable (a @ b) \<longleftrightarrow> writable a \<and> writable b"
  by (auto simp: writable_def)

lemma writable_plain: "plain s \<Longrightarrow> writable (str s)"
  by (simp add: writable_def plain_no_control plain_encodable)

lemma simple_element_writable:
  "plain tag \<Longrightarrow> writable v \<Longrightarrow>
   simple_element lvl (str tag) (Some v) = Inr (utf8 (xml_line lvl (xml_elem tag (escaped v))))"
  by (simp add: simple_element_Some writable_def)

lemma write_all_Inr: "write_all (Inr a # ws) = and_then (write_all ws) (\<lambda>b. Inr (a @ b))"
  by (simp add: and_then_Inr)



lemma write_all_map:
  "(\<And>x. x \<in> set xs \<Longrightarrow> f x = Inr (utf8 (g x))) \<Longrightarrow>
   write_all (map f xs) = Inr (utf8 (concat (map g xs)))"
  by (induction xs) (simp_all add: and_then_Inr utf8_Nil utf8_append)

lemma decimal_plain: "list_all (\<lambda>c. 0x30 \<le> c \<and> c \<le> 0x39) (decimal n)"
proof (induction n rule: decimal.induct)
  case (1 n)
  show ?case
  proof (cases "n < 10")
    case True
    then show ?thesis by (subst decimal.simps) simp
  next
    case False
    have "n mod 10 < 10" by simp
    then have "0x30 + n mod 10 \<le> 0x39" by linarith
    with 1 [OF False] False show ?thesis by (subst decimal.simps) simp
  qed
qed

lemma writable_format_d: "writable (format_d i)"
proof -
  have "writable (decimal n)" for n
    using decimal_plain [of n]
    by (auto simp: writable_def list_all_iff list_ex_iff controlCharPat_def encodable_def)
  moreover have "writable (str ''-'')"
    by (simp add: writable_plain plain_Cons plain_Nil)
  ultimately show ?thesis
    by (simp add: format_d_def writable_append)
qed

theorem write_value_xml:
  "writable_obj obj \<Longrightarrow> write_value lvl obj = Inr (utf8 (xml_value lvl obj))"
proof (induction lvl obj rule: write_value.induct)
  case (1 lvl s)
  then show ?case
    by (simp add: simple_element_writable plain_Cons plain_Nil)
next
  case (2 lvl b)
  show ?case
    by (simp add: simple_element_None plain_Cons plain_Nil)
next
  case (3 lvl i)
  then show ?case
    by (simp add: simple_element_writable plain_Cons plain_Nil writable_format_d)
next
  case (4 lvl d)
  show ?case
  proof (cases "d = []")
    case True
    then show ?thesis
      by (simp add: simple_element_None plain_Cons plain_Nil)
  next
    case False
    have item: "write_all [simple_element (Suc lvl) (str ''key'') (Some key),
                          write_value (Suc lvl) value] =
        Inr (utf8 (xml_line (Suc lvl) (xml_elem ''key'' (escaped key)) @ xml_value (Suc lvl) value))"
      if "(key, value) \<in> set (sort_key fst d)" for key "value"
    proof -
      from that have m: "(key, value) \<in> set d" by simp
      with 4(2) have w: "writable key" "writable_obj value"
        by (auto simp: list_all_iff)
      from 4(1) [OF False that refl w(2)]
      show ?thesis
        using w(1) by (simp add: simple_element_writable plain_Cons plain_Nil and_then_Inr utf8_append)
    qed
    have "write_all (map (\<lambda>(key, value).
               write_all [simple_element (Suc lvl) (str ''key'') (Some key),
                          write_value (Suc lvl) value]) (sort_key fst d)) =
          Inr (utf8 (concat (map (\<lambda>(key, value).
            xml_line (Suc lvl) (xml_elem ''key'' (escaped key)) @ xml_value (Suc lvl) value)
          (sort_key fst d))))"
      by (rule write_all_map) (use item in auto)
    with False show ?thesis
      by (simp add: begin_element_eq end_element_eq plain_Cons plain_Nil and_then_Inr utf8_append
          del: sort_key_simps)
  qed
next
  case (5 lvl array)
  show ?case
  proof (cases "array = []")
    case True
    then show ?thesis
      by (simp add: simple_element_None plain_Cons plain_Nil)
  next
    case False
    have "write_all (map (write_value (Suc lvl)) array) =
          Inr (utf8 (concat (map (xml_value (Suc lvl)) array)))"
    proof (rule write_all_map)
      fix x
      assume x: "x \<in> set array"
      with 5(2) have "writable_obj x"
        by (simp add: list_all_iff)
      with 5(1) [OF False x] show "write_value (Suc lvl) x = Inr (utf8 (xml_value (Suc lvl) x))" .
    qed
    with False show ?thesis
      by (simp add: begin_element_eq end_element_eq plain_Cons plain_Nil and_then_Inr utf8_append)
  qed
qed

lemma dumps_xml: "writable_obj obj \<Longrightarrow> dumps obj = Inr (utf8 (plist_xml obj))"
proof -
  assume w: "writable_obj obj"
  have a: \<open>writeln 0 (str ''<plist version="1.0">'') =
      Inr (utf8 (xml_line 0 (str ''<plist version="1.0">'')))\<close>
    by (rule writeln_str) simp_all
  have b: "writeln 0 (str ''</plist>'') = Inr (utf8 (xml_line 0 (str ''</plist>'')))"
    by (rule writeln_str) simp_all
  show ?thesis
    unfolding dumps_def plist_xml_def a b write_value_xml [OF w] PLISTHEADER_utf8
    by (simp add: and_then_Inr utf8_append)
qed

lemma writable_payload:
  "writable_obj (payload profile_uuid wifi_uuid sanitized ssid proxy_ip) \<longleftrightarrow>
     writable profile_uuid \<and> writable wifi_uuid \<and> writable sanitized \<and> writable ssid \<and>
     writable proxy_ip"
  by (auto simp: payload_def writable_append writable_plain plain_Cons plain_Nil PROXY_PORT_def)

section \<open>When \<open>build_profile\<close> returns\<close>

lemma hexdigit_range: "d < 16 \<Longrightarrow> 0x30 \<le> hexdigit d \<and> hexdigit d \<le> 0x66"
  by (simp add: hexdigit_def)

lemma hex_digits_range: "list_all (\<lambda>c. 0x30 \<le> c \<and> c \<le> 0x66) (hex_digits k n)"
proof (induction k arbitrary: n)
  case 0
  show ?case by simp
next
  case (Suc k)
  have "n mod 16 < 16" by simp
  then have "0x30 \<le> hexdigit (n mod 16) \<and> hexdigit (n mod 16) \<le> 0x66"
    by (rule hexdigit_range)
  with Suc show ?case by simp
qed

lemma hex_chars_writable: "list_all (\<lambda>c. 0x2D \<le> c \<and> c \<le> 0x66) s \<Longrightarrow> writable s"
  by (auto simp: writable_def list_all_iff list_ex_iff controlCharPat_def encodable_def)

lemma uuid_str_chars: "list_all (\<lambda>c. 0x2D \<le> c \<and> c \<le> 0x66) (uuid_str u)"
proof -
  let ?hex = "hex_digits 32 (unat u)"
  have h: "\<forall>c \<in> set ?hex. 0x2D \<le> c \<and> c \<le> 0x66"
    using hex_digits_range [of 32 "unat u"] by (auto simp: list_all_iff)
  have t: "\<forall>c \<in> set (take n (drop m ?hex)). 0x2D \<le> c \<and> c \<le> 0x66" for n m
    using h by (meson in_set_dropD in_set_takeD)
  have d: "\<forall>c \<in> set (drop m ?hex). 0x2D \<le> c \<and> c \<le> 0x66" for m
    using h by (meson in_set_dropD)
  have k: "\<forall>c \<in> set (take n ?hex). 0x2D \<le> c \<and> c \<le> 0x66" for n
    using h by (meson in_set_takeD)
  show ?thesis
    using t d k by (simp add: uuid_str_def Let_def list_all_iff str_def ball_Un)
qed

lemma uuid_str_writable: "writable (uuid_str u)"
  using uuid_str_chars by (rule hex_chars_writable)

lemma sanitized_ssid_subset: "set (sanitized_ssid ucd ssid) \<subseteq> set ssid \<union> set (str ''wifi'')"
  using sanitize_identifier_set [of _ ucd ssid] by (auto simp: sanitized_ssid_def Let_def)

lemma sanitized_ssid_writable: "writable ssid \<Longrightarrow> writable (sanitized_ssid ucd ssid)"
proof -
  assume w: "writable ssid"
  have "writable (str ''wifi'')"
    by (simp add: writable_plain plain_Cons plain_Nil)
  with w sanitized_ssid_subset [of ucd ssid] show ?thesis
    by (auto simp: writable_def list_all_iff list_ex_iff)
qed

lemma build_profile_ok:
  assumes "writable ssid" and "writable proxy_ip"
  shows "build_profile ucd r1 r2 ssid proxy_ip =
           Inr (utf8 (plist_xml (profile_dict ucd r1 r2 ssid proxy_ip)))"
proof -
  have "writable_obj (profile_dict ucd r1 r2 ssid proxy_ip)"
    using assms by (simp add: profile_dict_def Let_def writable_payload uuid_str_writable
        sanitized_ssid_writable)
  then show ?thesis
    unfolding build_profile_def by (rule dumps_xml)
qed

lemma write_all_map_first:
  "(\<And>x. x \<in> set xs \<Longrightarrow> f x = (case h x of None \<Rightarrow> Inr (utf8 (g x)) | Some e \<Rightarrow> Inl e)) \<Longrightarrow>
   write_all (map f xs) =
     (case first_of (map h xs) of None \<Rightarrow> Inr (utf8 (concat (map g xs))) | Some e \<Rightarrow> Inl e)"
proof (induction xs)
  case Nil
  show ?case by (simp add: utf8_Nil)
next
  case (Cons x xs)
  have x: "f x = (case h x of None \<Rightarrow> Inr (utf8 (g x)) | Some e \<Rightarrow> Inl e)"
    by (rule Cons.prems) simp
  have xs: "write_all (map f xs) =
     (case first_of (map h xs) of None \<Rightarrow> Inr (utf8 (concat (map g xs))) | Some e \<Rightarrow> Inl e)"
    by (rule Cons.IH) (simp add: Cons.prems)
  show ?case
    by (cases "h x"; cases "first_of (map h xs)")
      (simp_all add: x xs and_then_Inl and_then_Inr utf8_append)
qed

lemma simple_element_error:
  "plain tag \<Longrightarrow>
   simple_element lvl (str tag) (Some v) =
     (case str_error v of
        None \<Rightarrow> Inr (utf8 (xml_line lvl (xml_elem tag (escaped v))))
      | Some e \<Rightarrow> Inl e)"
  by (simp add: simple_element_Some str_error_def)

lemma str_error_format_d: "str_error (format_d i) = None"
  using writable_format_d [of i] by (simp add: str_error_def writable_def)

theorem write_value_error:
  "write_value lvl obj =
     (case first_error obj of None \<Rightarrow> Inr (utf8 (xml_value lvl obj)) | Some e \<Rightarrow> Inl e)"
proof (induction lvl obj rule: write_value.induct)
  case (1 lvl s)
  show ?case
    by (cases "str_error s") (simp_all add: simple_element_error plain_Cons plain_Nil)
next
  case (2 lvl b)
  show ?case
    by (simp add: simple_element_None plain_Cons plain_Nil)
next
  case (3 lvl i)
  show ?case
    by (simp add: simple_element_error plain_Cons plain_Nil str_error_format_d)
next
  case (4 lvl d)
  show ?case
  proof (cases "d = []")
    case True
    then show ?thesis
      by (simp add: simple_element_None plain_Cons plain_Nil)
  next
    case False
    let ?f = "\<lambda>(key, value).
               write_all [simple_element (Suc lvl) (str ''key'') (Some key),
                          write_value (Suc lvl) value]"
    let ?h = "\<lambda>(key, value). first_of [str_error key, first_error value]"
    let ?g = "\<lambda>(key, value).
            xml_line (Suc lvl) (xml_elem ''key'' (escaped key)) @ xml_value (Suc lvl) value"
    have item: "?f x = (case ?h x of None \<Rightarrow> Inr (utf8 (?g x)) | Some e \<Rightarrow> Inl e)"
      if "x \<in> set (sort_key fst d)" for x
    proof -
      obtain key "value" where x: "x = (key, value)"
        by (cases x)
      from 4 [OF False that x [symmetric]]
      show ?thesis
        unfolding x
        by (cases "str_error key"; cases "first_error value")
          (simp_all add: simple_element_error plain_Cons plain_Nil and_then_Inl and_then_Inr
            utf8_append)
    qed
    have "write_all (map ?f (sort_key fst d)) =
          (case first_of (map ?h (sort_key fst d)) of
             None \<Rightarrow> Inr (utf8 (concat (map ?g (sort_key fst d)))) | Some e \<Rightarrow> Inl e)"
      using item by (rule write_all_map_first)
    with False show ?thesis
      by (cases "first_of (map ?h (sort_key fst d))")
        (simp_all add: begin_element_eq end_element_eq plain_Cons plain_Nil and_then_Inl
          and_then_Inr utf8_append del: sort_key_simps)
  qed
next
  case (5 lvl array)
  show ?case
  proof (cases "array = []")
    case True
    then show ?thesis
      by (simp add: simple_element_None plain_Cons plain_Nil)
  next
    case False
    have "write_all (map (write_value (Suc lvl)) array) =
          (case first_of (map first_error array) of
             None \<Rightarrow> Inr (utf8 (concat (map (xml_value (Suc lvl)) array))) | Some e \<Rightarrow> Inl e)"
      using 5 [OF False] by (rule write_all_map_first)
    with False show ?thesis
      by (cases "first_of (map first_error array)")
        (simp_all add: begin_element_eq end_element_eq plain_Cons plain_Nil and_then_Inl
          and_then_Inr utf8_append)
  qed
qed

lemma dumps_error:
  "dumps obj = (case first_error obj of None \<Rightarrow> Inr (utf8 (plist_xml obj)) | Some e \<Rightarrow> Inl e)"
proof -
  have a: \<open>writeln 0 (str ''<plist version="1.0">'') =
      Inr (utf8 (xml_line 0 (str ''<plist version="1.0">'')))\<close>
    by (rule writeln_str) simp_all
  have b: "writeln 0 (str ''</plist>'') = Inr (utf8 (xml_line 0 (str ''</plist>'')))"
    by (rule writeln_str) simp_all
  show ?thesis
    unfolding dumps_def plist_xml_def a b write_value_error [of 0 obj] PLISTHEADER_utf8
    by (cases "first_error obj") (simp_all add: and_then_Inl and_then_Inr utf8_append)
qed

lemma str_error_plain: "plain s \<Longrightarrow> str_error (str s) = None"
  by (simp add: str_error_def plain_no_control plain_encodable)

lemma str_error_writable: "writable s \<Longrightarrow> str_error s = None"
  by (simp add: str_error_def writable_def)

lemma str_error_append_plain: "plain t \<Longrightarrow> str_error (s @ str t) = str_error s"
  by (simp add: str_error_def plain_no_control plain_encodable)

lemma str_error_plain_append: "plain t \<Longrightarrow> str_error (str t @ s) = str_error s"
  by (simp add: str_error_def plain_no_control plain_encodable)

lemma first_of_single: "first_of [x] = x"
  by (cases x) simp_all

lemma first_of_nested: "first_of (first_of xs # ys) = first_of (xs @ ys)"
proof (induction xs)
  case Nil
  show ?case by simp
next
  case (Cons x xs)
  then show ?case by (cases x) simp_all
qed

lemma first_of_skip: "first_of (x # None # xs) = first_of (x # xs)"
  by (cases x) simp_all

lemma first_error_payload:
  "first_error (payload profile_uuid wifi_uuid sanitized ssid proxy_ip) =
     first_of [str_error ssid, str_error sanitized, str_error wifi_uuid, str_error proxy_ip,
               str_error ssid, str_error sanitized, str_error profile_uuid]"
proof -
  have "first_error (payload profile_uuid wifi_uuid sanitized ssid proxy_ip) =
     first_of
      [str_error ssid, str_error sanitized, None, str_error wifi_uuid, None,
       str_error proxy_ip, None, None, str_error ssid, str_error sanitized,
       None, None, str_error profile_uuid, None]"
    unfolding payload_def
    by (simp add: sort_inner sort_outer str_error_plain str_error_append_plain
        str_error_plain_append plain_Cons plain_Nil PROXY_PORT_def first_of_single
        first_of_nested first_of_skip del: sort_key_simps)
  also have "\<dots> =
     first_of [str_error ssid, str_error sanitized, str_error wifi_uuid, str_error proxy_ip,
               str_error ssid, str_error sanitized, str_error profile_uuid]"
    by (cases "str_error ssid"; cases "str_error sanitized"; cases "str_error wifi_uuid";
        cases "str_error proxy_ip"; cases "str_error profile_uuid") simp_all
  finally show ?thesis .
qed

lemma build_profile_cases:
  "build_profile ucd r1 r2 ssid proxy_ip =
     (if list_ex controlCharPat ssid then Inl ValueError
      else if \<not> list_all encodable ssid then Inl UnicodeEncodeError
      else if list_ex controlCharPat proxy_ip then Inl ValueError
      else if \<not> list_all encodable proxy_ip then Inl UnicodeEncodeError
      else Inr (utf8 (plist_xml (profile_dict ucd r1 r2 ssid proxy_ip))))"
proof (cases "str_error ssid")
  case (Some e)
  then have "first_error (profile_dict ucd r1 r2 ssid proxy_ip) = Some e"
    by (simp add: profile_dict_def Let_def first_error_payload)
  then have "build_profile ucd r1 r2 ssid proxy_ip = Inl e"
    by (simp add: build_profile_def dumps_error)
  with Some show ?thesis
    by (auto simp: str_error_def split: if_splits)
next
  case None
  then have w: "writable ssid"
    by (auto simp: str_error_def writable_def split: if_splits)
  have "first_error (profile_dict ucd r1 r2 ssid proxy_ip) = str_error proxy_ip"
    using None
    by (simp add: profile_dict_def Let_def first_error_payload first_of_single first_of_skip
        str_error_writable uuid_str_writable sanitized_ssid_writable [OF w])
  then have "build_profile ucd r1 r2 ssid proxy_ip =
      (case str_error proxy_ip of
         None \<Rightarrow> Inr (utf8 (plist_xml (profile_dict ucd r1 r2 ssid proxy_ip)))
       | Some e \<Rightarrow> Inl e)"
    by (simp add: build_profile_def dumps_error)
  with w show ?thesis
    by (auto simp: str_error_def writable_def)
qed

text \<open>
  C2, as amended. \<open>build_profile\<close> returns bytes exactly for the pairs of strings that
  hold no control character below U+0020 other than tab, line feed and carriage return,
  and no surrogate code point. For the others \<open>plistlib.dumps\<close> raises: \<open>ValueError\<close> for
  a control character, \<open>UnicodeEncodeError\<close> for a surrogate, the network name being
  written before the proxy host.
\<close>

theorem build_profile_result:
  "build_profile ucd r1 r2 ssid proxy_ip =
     (if list_ex controlCharPat ssid then Inl ValueError
      else if \<not> list_all encodable ssid then Inl UnicodeEncodeError
      else if list_ex controlCharPat proxy_ip then Inl ValueError
      else if \<not> list_all encodable proxy_ip then Inl UnicodeEncodeError
      else Inr (utf8 (plist_xml (profile_dict ucd r1 r2 ssid proxy_ip))))"
  by (rule build_profile_cases)

text \<open>
  The amended C2 at the network name \<open>TestNet\<close> and the host \<open>10.0.0.5\<close>: bytes are
  returned.
\<close>

theorem build_profile_result_witness:
  "\<forall>ucd r1 r2. build_profile ucd r1 r2 (str ''TestNet'') (str ''10.0.0.5'') =
     Inr (utf8 (plist_xml (profile_dict ucd r1 r2 (str ''TestNet'') (str ''10.0.0.5''))))"
proof (intro allI)
  fix ucd r1 r2
  have a: "\<not> list_ex controlCharPat (str ''TestNet'')" "list_all encodable (str ''TestNet'')"
    "\<not> list_ex controlCharPat (str ''10.0.0.5'')" "list_all encodable (str ''10.0.0.5'')"
    by (simp_all add: plain_no_control plain_encodable plain_Cons plain_Nil)
  show "build_profile ucd r1 r2 (str ''TestNet'') (str ''10.0.0.5'') =
     Inr (utf8 (plist_xml (profile_dict ucd r1 r2 (str ''TestNet'') (str ''10.0.0.5''))))"
    using build_profile_result [of ucd r1 r2 "str ''TestNet''" "str ''10.0.0.5''"] a by simp
qed

text \<open>
  C2 as stated fails: a network name made of the character U+0007 (BEL) makes
  \<open>build_profile\<close> raise \<open>ValueError\<close>; the name reaches the writer unsanitized, as
  \<open>SSID_STR\<close> and in the display name.
\<close>

theorem build_profile_raises_counterexample:
  "\<forall>ucd r1 r2. build_profile ucd r1 r2 [0x07] (str ''10.0.0.5'') = Inl ValueError"
  by (simp add: build_profile_cases controlCharPat_def)

lemma str_inject: "str a = str b \<longleftrightarrow> a = b"
proof (induction a arbitrary: b)
  case Nil
  show ?case by (cases b) (simp_all add: str_def)
next
  case (Cons c a)
  show ?case
  proof (cases b)
    case Nil
    then show ?thesis by (simp add: str_def)
  next
    case (Cons d b')
    with Cons.IH [of b'] show ?thesis
      by (simp add: str_Cons of_char_eq_iff)
  qed
qed

lemma prefixes_differ:
  "str ''com.example.burp-proxy.'' @ x \<noteq> str ''com.example.wifi.'' @ x"
  by (simp add: str_def)

text \<open>
  C9. In the property list that \<open>build_profile\<close> serialises, the identifier of the
  profile is \<open>com.example.burp-proxy.\<close> followed by the sanitized name, the identifier of
  its one payload is \<open>com.example.wifi.\<close> followed by the same name, and the two differ.
\<close>

theorem payload_identifiers_distinct:
  "\<exists>profile_id wifi_id content.
     getitem (profile_dict ucd r1 r2 ssid proxy_ip) (str ''PayloadIdentifier'') =
       Some (PyStr profile_id) \<and>
     getitem (profile_dict ucd r1 r2 ssid proxy_ip) (str ''PayloadContent'') =
       Some (PyList [content]) \<and>
     getitem content (str ''PayloadIdentifier'') = Some (PyStr wifi_id) \<and>
     profile_id = str ''com.example.burp-proxy.'' @ sanitized_ssid ucd ssid \<and>
     wifi_id = str ''com.example.wifi.'' @ sanitized_ssid ucd ssid \<and>
     profile_id \<noteq> wifi_id"
  by (simp add: profile_dict_def Let_def payload_def str_inject prefixes_differ)

section \<open>The download route and the local address\<close>

lemma name_profile_path_in: "name (profile_path_in cwd) = PROFILE_FILENAME"
  by (simp add: name_def profile_path_in_def)

lemma send_error_404_body:
  "\<exists>a b. body (send_error_404 message) = a @ html_escape message @ b"
proof -
  have \<open>body (send_error_404 message) =
     (''<!DOCTYPE HTML>'' @ [CHR 0x0A] @
     ''<html lang="en">'' @ [CHR 0x0A] @
     ''    <head>'' @ [CHR 0x0A] @
     ''        <meta charset="utf-8">'' @ [CHR 0x0A] @
     ''        <title>Error response</title>'' @ [CHR 0x0A] @
     ''    </head>'' @ [CHR 0x0A] @
     ''    <body>'' @ [CHR 0x0A] @
     ''        <h1>Error response</h1>'' @ [CHR 0x0A] @
     ''        <p>Error code: '' @ ''404'' @ ''</p>'' @ [CHR 0x0A] @
     ''        <p>Message: '') @ html_escape message @
     (''.</p>'' @ [CHR 0x0A] @
     ''        <p>Error code explanation: '' @ ''404'' @ '' - '' @
     html_escape ''Nothing matches the given URI'' @ ''.</p>'' @ [CHR 0x0A] @
     ''    </body>'' @ [CHR 0x0A] @
     ''</html>'' @ [CHR 0x0A])\<close>
    by (simp add: send_error_404_def error_page_def Let_def)
  then show ?thesis by blast
qed

lemma download_cases:
  "(fs p = Some (File content) \<longrightarrow>
      (\<exists>r. do_GET fs p ''/download'' = Inr r \<and> status r = 200 \<and>
         map_of (headers r) ''Content-Type'' = Some ''application/x-apple-aspen-config'' \<and>
         map_of (headers r) ''Content-Disposition'' = Some (''attachment; filename='' @ name p) \<and>
         body r = content)) \<and>
   (fs p = None \<longrightarrow>
      (\<exists>r. do_GET fs p ''/download'' = Inr r \<and> status r = 404 \<and>
         reason r = ''Profile not found'' \<and>
         (\<exists>a b. body r = a @ ''Profile not found'' @ b))) \<and>
   name (profile_path_in cwd) = PROFILE_FILENAME"
proof -
  have e: "html_escape ''Profile not found'' = ''Profile not found''"
    by (simp add: html_escape_def)
  have "\<exists>a b. body (send_error_404 ''Profile not found'') = a @ ''Profile not found'' @ b"
    using send_error_404_body [of "''Profile not found''"] unfolding e .
  moreover have "status (send_error_404 m) = 404" "reason (send_error_404 m) = m" for m
    by (simp_all add: send_error_404_def Let_def)
  ultimately show ?thesis
    by (simp add: do_GET_def name_profile_path_in)
qed

text \<open>
  C7. A \<open>GET\<close> of \<open>/download\<close>: when the path of the profile leads to a file, the
  response has status 200, the content type \<open>application/x-apple-aspen-config\<close>, a
  \<open>Content-Disposition\<close> header \<open>attachment; filename=\<close> followed by the name of the file,
  and the bytes of the file as its body; when the path leads to nothing, the response has
  status 404 and a body that holds the reason \<open>Profile not found\<close>. In both cases the
  handler returns, so nothing ends the process. The path \<open>main\<close> passes to the server is
  named \<open>burp-wifi-proxy.mobileconfig\<close>.
\<close>

theorem download_route:
  "(fs p = Some (File content) \<longrightarrow>
      (\<exists>r. do_GET fs p ''/download'' = Inr r \<and> status r = 200 \<and>
         map_of (headers r) ''Content-Type'' = Some ''application/x-apple-aspen-config'' \<and>
         map_of (headers r) ''Content-Disposition'' = Some (''attachment; filename='' @ name p) \<and>
         body r = content)) \<and>
   (fs p = None \<longrightarrow>
      (\<exists>r. do_GET fs p ''/download'' = Inr r \<and> status r = 404 \<and>
         reason r = ''Profile not found'' \<and>
         (\<exists>a b. body r = a @ ''Profile not found'' @ b))) \<and>
   name (profile_path_in cwd) = PROFILE_FILENAME"
  by (rule download_cases)

text \<open>
  C7 in the directory \<open>/srv\<close>: once with the profile on disk holding the bytes \<open>abc\<close>,
  once with an empty file system.
\<close>

theorem download_route_witness:
  "(\<exists>r. do_GET [profile_path_in [''srv''] \<mapsto> File ''abc''] (profile_path_in [''srv''])
          ''/download'' = Inr r \<and> status r = 200 \<and>
        map_of (headers r) ''Content-Disposition'' =
          Some ''attachment; filename=burp-wifi-proxy.mobileconfig'' \<and>
        body r = ''abc'') \<and>
   (\<exists>r. do_GET Map.empty (profile_path_in [''srv'']) ''/download'' = Inr r \<and> status r = 404 \<and>
        (\<exists>a b. body r = a @ ''Profile not found'' @ b))"
proof -
  let ?p = "profile_path_in [''srv'']"
  have n: "name ?p = ''burp-wifi-proxy.mobileconfig''"
    by (simp add: name_profile_path_in PROFILE_FILENAME_def)
  have a: "[?p \<mapsto> File ''abc''] ?p = Some (File ''abc'')"
    by simp
  have b: "(Map.empty :: path \<rightharpoonup> node) ?p = None"
    by simp
  from download_route [of "[?p \<mapsto> File ''abc'']" ?p "''abc''" "[''srv'']"] a
  have 1: "\<exists>r. do_GET [?p \<mapsto> File ''abc''] ?p ''/download'' = Inr r \<and> status r = 200 \<and>
        map_of (headers r) ''Content-Disposition'' = Some (''attachment; filename='' @ name ?p) \<and>
        body r = ''abc''"
    by blast
  from download_route [of Map.empty ?p "''abc''" "[''srv'']"] b
  have 2: "\<exists>r. do_GET Map.empty ?p ''/download'' = Inr r \<and> status r = 404 \<and>
        (\<exists>a b. body r = a @ ''Profile not found'' @ b)"
    by blast
  from 1 2 show ?thesis
    unfolding n by simp
qed

lemma get_local_ip_cases:
  assumes "raises_only_OSError net"
  shows "(\<exists>ip. get_local_ip net = Inr ip) \<and>
     (isl (socket_call net) \<or> isl (connect net) \<or> isl (getsockname net) \<longrightarrow>
        get_local_ip net = Inr (str ''127.0.0.1'')) \<and>
     (\<forall>host port. socket_call net = Inr () \<and> connect net = Inr () \<and>
        getsockname net = Inr (host, port) \<longrightarrow> get_local_ip net = Inr host)"
  using assms
  by (auto simp: raises_only_OSError_def os_error_def get_local_ip_def with_block_def Let_def
      split: sum.splits exn.splits option.splits prod.splits)

text \<open>
  C8. Provided the socket calls raise nothing but \<open>OSError\<close>, \<open>get_local_ip\<close> returns a
  string and raises nothing; when creating the socket, \<open>connect\<close> or \<open>getsockname\<close>
  raises, that string is \<open>127.0.0.1\<close>, and when the three succeed it is the host that
  \<open>getsockname\<close> reports.
\<close>

theorem get_local_ip_never_raises:
  assumes "raises_only_OSError net"
  shows "(\<exists>ip. get_local_ip net = Inr ip) \<and>
     (isl (socket_call net) \<or> isl (connect net) \<or> isl (getsockname net) \<longrightarrow>
        get_local_ip net = Inr (str ''127.0.0.1'')) \<and>
     (\<forall>host port. socket_call net = Inr () \<and> connect net = Inr () \<and>
        getsockname net = Inr (host, port) \<longrightarrow> get_local_ip net = Inr host)"
  using assms by (rule get_local_ip_cases)

text \<open>
  C8 on a network where \<open>connect\<close> raises \<open>OSError\<close> (no route), and on one where the
  socket is bound to \<open>192.168.1.7\<close>.
\<close>

theorem get_local_ip_never_raises_witness:
  "raises_only_OSError
     \<lparr>socket_call = Inr (), connect = Inl OSError, getsockname = Inl OSError, close = Inr ()\<rparr> \<and>
   get_local_ip
     \<lparr>socket_call = Inr (), connect = Inl OSError, getsockname = Inl OSError, close = Inr ()\<rparr> =
     Inr (str ''127.0.0.1'') \<and>
   raises_only_OSError
     \<lparr>socket_call = Inr (), connect = Inr (), getsockname = Inr (str ''192.168.1.7'', 54321),
      close = Inr ()\<rparr> \<and>
   get_local_ip
     \<lparr>socket_call = Inr (), connect = Inr (), getsockname = Inr (str ''192.168.1.7'', 54321),
      close = Inr ()\<rparr> = Inr (str ''192.168.1.7'')"
proof -
  let ?down = "\<lparr>socket_call = Inr (), connect = Inl OSError, getsockname = Inl OSError,
    close = Inr ()\<rparr>"
  let ?up = "\<lparr>socket_call = Inr (), connect = Inr (),
    getsockname = Inr (str ''192.168.1.7'', 54321 :: nat), close = Inr ()\<rparr>"
  have d: "raises_only_OSError ?down"
    by (simp add: raises_only_OSError_def os_error_def)
  have u: "raises_only_OSError ?up"
    by (simp add: raises_only_OSError_def os_error_def)
  from get_local_ip_never_raises [OF d] have 1: "get_local_ip ?down = Inr (str ''127.0.0.1'')"
    by simp
  from get_local_ip_never_raises [OF u] have 2: "get_local_ip ?up = Inr (str ''192.168.1.7'')"
    by simp
  from d u 1 2 show ?thesis by simp
qed

end
